theory Spec2Isabelle
  imports Main "HOL-Library.AList" "HOL-Library.Sublist"
begin

section \<open>JavaScript values\<close>

text \<open>
  The components exchange JSON with the backing service and test it dynamically
  (\<^verbatim>\<open>a || b\<close>, \<^verbatim>\<open>!x\<close>, \<^verbatim>\<open>Array.isArray\<close>, \<^verbatim>\<open>?.\<close>), so the data that comes from
  the service is modelled as a dynamically typed value. An object is an association list
  (the first binding of a key is the effective one). A number is an integer: the code only
  tests numbers for zero. A string is a list of code units below 256.
\<close>

datatype jsval =
    JUndefined
  | JNull
  | JBool bool
  | JNum int
  | JStr string
  | JArr "jsval list"
  | JObj "(string \<times> jsval) list"

text \<open>ToBoolean: \<^verbatim>\<open>undefined\<close>, \<^verbatim>\<open>null\<close>, \<^verbatim>\<open>false\<close>, \<^verbatim>\<open>0\<close> and \<^verbatim>\<open>""\<close> are falsy.\<close>

fun truthy :: "jsval \<Rightarrow> bool" where
  "truthy JUndefined = False"
| "truthy JNull = False"
| "truthy (JBool b) = b"
| "truthy (JNum n) = (n \<noteq> 0)"
| "truthy (JStr s) = (s \<noteq> [])"
| "truthy (JArr xs) = True"
| "truthy (JObj kvs) = True"

text \<open>\<^verbatim>\<open>a || b\<close> on values that are already evaluated.\<close>

definition js_or :: "jsval \<Rightarrow> jsval \<Rightarrow> jsval" where
  "js_or a b = (if truthy a then a else b)"

text \<open>
  The \<^verbatim>\<open>TypeError\<close> object thrown by a property read on \<^verbatim>\<open>null\<close> or \<^verbatim>\<open>undefined\<close>;
  its \<^verbatim>\<open>message\<close> is the text V8 produces.
\<close>

definition typeError :: "string \<Rightarrow> string \<Rightarrow> jsval" where
  "typeError base k =
     JObj [(''message'',
            JStr (''Cannot read properties of '' @ base @ '' (reading '' @ [CHR 0x27] @ k
                  @ [CHR 0x27] @ '')''))]"

text \<open>
  \<^verbatim>\<open>v.k\<close>: \<open>Inl\<close> is the thrown value. Own properties of objects, and \<^verbatim>\<open>length\<close> of
  arrays and strings; the code reads no index and no other member of a prototype.
\<close>

fun get_prop :: "jsval \<Rightarrow> string \<Rightarrow> jsval + jsval" where
  "get_prop JUndefined k = Inl (typeError ''undefined'' k)"
| "get_prop JNull k = Inl (typeError ''null'' k)"
| "get_prop (JObj kvs) k = Inr (case map_of kvs k of Some v \<Rightarrow> v | None \<Rightarrow> JUndefined)"
| "get_prop (JArr xs) k = Inr (if k = ''length'' then JNum (int (length xs)) else JUndefined)"
| "get_prop (JStr s) k = Inr (if k = ''length'' then JNum (int (length s)) else JUndefined)"
| "get_prop (JBool b) k = Inr JUndefined"
| "get_prop (JNum n) k = Inr JUndefined"

text \<open>\<^verbatim>\<open>v?.k\<close>: \<^verbatim>\<open>undefined\<close> when \<open>v\<close> is \<^verbatim>\<open>null\<close> or \<^verbatim>\<open>undefined\<close>.\<close>

fun opt_prop :: "jsval \<Rightarrow> string \<Rightarrow> jsval" where
  "opt_prop JUndefined k = JUndefined"
| "opt_prop JNull k = JUndefined"
| "opt_prop v k = (case get_prop v k of Inr x \<Rightarrow> x | Inl e \<Rightarrow> JUndefined)"

text \<open>\<^verbatim>\<open>p.id || p.profile_id\<close>, the id resolution used by every view.\<close>

definition id_or_profile_id :: "jsval \<Rightarrow> jsval + jsval" where
  "id_or_profile_id p =
     (case get_prop p ''id'' of
        Inl e \<Rightarrow> Inl e
      | Inr a \<Rightarrow> if truthy a then Inr a else get_prop p ''profile_id'')"

text \<open>
  \<^verbatim>\<open>err.response?.data?.detail || err.message || fallback\<close>, the text every catch
  block derives from the caught value; \<open>Inl\<close> when reading \<^verbatim>\<open>err.response\<close> itself throws.
\<close>

definition error_text :: "jsval \<Rightarrow> string \<Rightarrow> jsval + jsval" where
  "error_text err fallback =
     (case get_prop err ''response'' of
        Inl e \<Rightarrow> Inl e
      | Inr r \<Rightarrow>
          let detail = opt_prop (opt_prop r ''data'') ''detail'' in
          if truthy detail then Inr detail
          else (case get_prop err ''message'' of
                  Inl e \<Rightarrow> Inl e
                | Inr m \<Rightarrow> Inr (js_or m (JStr fallback))))"

text \<open>How an awaited call settles: the value it resolves with, or the value it rejects with.\<close>

datatype outcome = Resolved jsval | Rejected jsval

subsection \<open>Strings\<close>

text \<open>
  \<^verbatim>\<open>String.prototype.trim\<close> removes white space and line terminators from both ends;
  below 256 these are TAB, LF, VT, FF, CR, SPACE and NBSP.
\<close>

definition is_ws :: "char \<Rightarrow> bool" where
  "is_ws c = (c \<in> {CHR 0x09, CHR 0x0A, CHR 0x0B, CHR 0x0C, CHR 0x0D, CHR 0x20, CHR 0xA0})"

definition trim :: "string \<Rightarrow> string" where
  "trim s = rev (dropWhile is_ws (rev (dropWhile is_ws s)))"

text \<open>
  \<^verbatim>\<open>String.prototype.toLowerCase\<close> below 256: A-Z and the accented capitals
  0xC0-0xDE (without the multiplication sign 0xD7) move up by 32.
\<close>

definition lower_char :: "char \<Rightarrow> char" where
  "lower_char c =
     (let n = (of_char c :: nat) in
      if (65 \<le> n \<and> n \<le> 90) \<or> (192 \<le> n \<and> n \<le> 222 \<and> n \<noteq> 215)
      then char_of (n + 32) else c)"

definition toLowerCase :: "string \<Rightarrow> string" where
  "toLowerCase s = map lower_char s"

section \<open>AnalysisChat\<close>

datatype message_type = User | Assistant | Error

text \<open>
  A chat message; \<open>report\<close> is \<^verbatim>\<open>undefined\<close> except on assistant messages, \<open>timestamp\<close>
  is the reading of the clock (\<^verbatim>\<open>new Date()\<close>) when the message was built.
\<close>

record message =
  msg_type :: message_type
  content :: jsval
  report :: jsval
  timestamp :: nat

text \<open>The four \<^verbatim>\<open>useState\<close> cells of the component.\<close>

record chat_state =
  messages :: "message list"
  input :: string
  loading :: bool
  targetRole :: string

definition chat_init :: chat_state where
  "chat_init = \<lparr>messages = [], input = [], loading = False, targetRole = []\<rparr>"

record target_role =
  role_name :: string
  description :: string
  skill_framework :: string

record analysis_request =
  user_profile_id :: jsval
  user_query :: string
  target_role :: target_role
  use_rag :: bool

definition userMessage :: "string \<Rightarrow> nat \<Rightarrow> message" where
  "userMessage txt now =
     \<lparr>msg_type = User, content = JStr txt, report = JUndefined, timestamp = now\<rparr>"

definition assistantMessage :: "jsval \<Rightarrow> jsval \<Rightarrow> nat \<Rightarrow> message" where
  "assistantMessage summary response now =
     \<lparr>msg_type = Assistant, content = js_or summary (JStr ''Analysis completed''),
      report = response, timestamp = now\<rparr>"

definition errorMessage :: "jsval \<Rightarrow> nat \<Rightarrow> message" where
  "errorMessage txt now =
     \<lparr>msg_type = Error, content = txt, report = JUndefined, timestamp = now\<rparr>"

text \<open>
  The \<^verbatim>\<open>catch\<close> block of \<^verbatim>\<open>handleSend\<close>: it appends the error message, unless building
  its text throws.
\<close>

definition handleSend_catch :: "jsval \<Rightarrow> nat \<Rightarrow> chat_state \<Rightarrow> chat_state" where
  "handleSend_catch err now s =
     (case error_text err ''Failed to analyze skills'' of
        Inl e \<Rightarrow> s
      | Inr txt \<Rightarrow> s\<lparr>messages := messages s @ [errorMessage txt now]\<rparr>)"

text \<open>The \<^verbatim>\<open>finally\<close> block.\<close>

definition handleSend_finally :: "chat_state \<Rightarrow> chat_state" where
  "handleSend_finally s = s\<lparr>loading := False\<rparr>"

text \<open>
  \<^verbatim>\<open>handleSend\<close> up to its \<^verbatim>\<open>await\<close>: the guard, the optimistic user message, the
  flag, the cleared input and the request handed to \<^verbatim>\<open>analysisAPI.analyze\<close>
  (\<open>None\<close> when no call is made). Building the request reads the \<open>profile\<close> prop inside
  the \<^verbatim>\<open>try\<close>; if that read throws, the handler runs its catch and finally blocks at once.
\<close>

definition handleSend_begin ::
  "jsval \<Rightarrow> nat \<Rightarrow> chat_state \<Rightarrow> chat_state \<times> analysis_request option" where
  "handleSend_begin profile now s =
     (if trim (input s) = [] \<or> trim (targetRole s) = [] \<or> loading s then (s, None)
      else
        let s1 = s\<lparr>messages := messages s @ [userMessage (input s) now],
                   loading := True, input := []\<rparr>;
            currentInput = input s;
            currentTargetRole = targetRole s
        in case id_or_profile_id profile of
             Inl e \<Rightarrow> (handleSend_finally (handleSend_catch e now s1), None)
           | Inr pid \<Rightarrow>
               (s1, Some \<lparr>user_profile_id = pid, user_query = currentInput,
                          target_role = \<lparr>role_name = currentTargetRole, description = [],
                                         skill_framework = []\<rparr>,
                          use_rag = True\<rparr>))"

text \<open>
  \<^verbatim>\<open>handleSend\<close> after its \<^verbatim>\<open>await\<close>, run on the state the component has when the call
  settles (both message updates are functional updates of the current log).
\<close>

definition handleSend_settle :: "outcome \<Rightarrow> nat \<Rightarrow> chat_state \<Rightarrow> chat_state" where
  "handleSend_settle out now s =
     handleSend_finally
       (case out of
          Rejected err \<Rightarrow> handleSend_catch err now s
        | Resolved response \<Rightarrow>
            (case get_prop response ''analysis_summary'' of
               Inl e \<Rightarrow> handleSend_catch e now s
             | Inr summary \<Rightarrow>
                 s\<lparr>messages := messages s @ [assistantMessage summary response now]\<rparr>))"

subsection \<open>The chat view over time\<close>

text \<open>
  What can happen to a mounted chat view: the user edits the text area or the target-role
  field, \<^verbatim>\<open>handleSend\<close> is invoked (button or Enter key) when the clock reads \<open>now\<close>,
  or the oldest outstanding \<^verbatim>\<open>analyze\<close> call settles. \<open>in_flight\<close> holds the requests
  that were issued and have not settled.
\<close>

datatype chat_event =
    SetInput string
  | SetTargetRole string
  | Send nat
  | Settle outcome nat

record chat_sys =
  chat :: chat_state
  in_flight :: "analysis_request list"

definition chat_start :: chat_sys where
  "chat_start = \<lparr>chat = chat_init, in_flight = []\<rparr>"

fun chat_step :: "jsval \<Rightarrow> chat_event \<Rightarrow> chat_sys \<Rightarrow> chat_sys" where
  "chat_step p (SetInput v) c = c\<lparr>chat := (chat c)\<lparr>input := v\<rparr>\<rparr>"
| "chat_step p (SetTargetRole v) c = c\<lparr>chat := (chat c)\<lparr>targetRole := v\<rparr>\<rparr>"
| "chat_step p (Send now) c =
     (case handleSend_begin p now (chat c) of
        (s', r) \<Rightarrow>
          \<lparr>chat = s', in_flight = in_flight c @ (case r of None \<Rightarrow> [] | Some q \<Rightarrow> [q])\<rparr>)"
| "chat_step p (Settle out now) c =
     (case in_flight c of
        [] \<Rightarrow> c
      | q # qs \<Rightarrow> \<lparr>chat = handleSend_settle out now (chat c), in_flight = qs\<rparr>)"

primrec chat_run :: "jsval \<Rightarrow> chat_event list \<Rightarrow> chat_sys \<Rightarrow> chat_sys" where
  "chat_run p [] c = c"
| "chat_run p (e # es) c = chat_run p es (chat_step p e c)"

text \<open>
  A log made of exchanges: each one a user message, followed by its reply (an assistant or
  error message) or by nothing yet.
\<close>

fun exchanges :: "message list \<Rightarrow> bool" where
  "exchanges [] = True"
| "exchanges [m] = (msg_type m = User)"
| "exchanges (m # r # ms) =
     (msg_type m = User \<and> (if msg_type r = User then exchanges (r # ms) else exchanges ms))"

section \<open>ProfileForm\<close>

datatype proficiency = beginner | intermediate | advanced | expert

text \<open>A skill as the form holds it; the source's field \<^verbatim>\<open>name\<close> is \<open>skill_name\<close> here.\<close>

record skill =
  skill_name :: string
  proficiency :: proficiency
  years_experience :: int

record form_data =
  name :: string
  current_role :: string
  skills :: "skill list"
  certifications :: "string list"
  experience_years :: int

record form_state =
  formData :: form_data
  newSkill :: skill
  newCert :: string
  form_loading :: bool
  form_error :: jsval

definition blank_skill :: skill where
  "blank_skill = \<lparr>skill_name = [], proficiency = beginner, years_experience = 0\<rparr>"

definition form_init :: form_state where
  "form_init =
     \<lparr>formData = \<lparr>name = [], current_role = [], skills = [], certifications = [],
                  experience_years = 0\<rparr>,
      newSkill = blank_skill, newCert = [], form_loading = False, form_error = JNull\<rparr>"

definition handleAddSkill :: "form_state \<Rightarrow> form_state" where
  "handleAddSkill s =
     (if trim (skill_name (newSkill s)) \<noteq> []
      then s\<lparr>formData := (formData s)\<lparr>skills := skills (formData s) @ [newSkill s]\<rparr>,
             newSkill := blank_skill\<rparr>
      else s)"

definition handleAddCert :: "form_state \<Rightarrow> form_state" where
  "handleAddCert s =
     (if trim (newCert s) \<noteq> []
      then s\<lparr>formData := (formData s)\<lparr>certifications :=
                                         certifications (formData s) @ [newCert s]\<rparr>,
             newCert := []\<rparr>
      else s)"

text \<open>\<^verbatim>\<open>xs.filter((_, i) => i !== index)\<close>\<close>

definition remove_at :: "nat \<Rightarrow> 'a list \<Rightarrow> 'a list" where
  "remove_at index xs = take index xs @ drop (Suc index) xs"

definition handleRemoveSkill :: "nat \<Rightarrow> form_state \<Rightarrow> form_state" where
  "handleRemoveSkill index s =
     s\<lparr>formData := (formData s)\<lparr>skills := remove_at index (skills (formData s))\<rparr>\<rparr>"

definition handleRemoveCert :: "nat \<Rightarrow> form_state \<Rightarrow> form_state" where
  "handleRemoveCert index s =
     s\<lparr>formData := (formData s)\<lparr>certifications :=
                                     remove_at index (certifications (formData s))\<rparr>\<rparr>"

section \<open>ProfileList\<close>

record list_state =
  profiles :: jsval
  list_loading :: bool
  list_error :: jsval

definition list_init :: list_state where
  "list_init = \<lparr>profiles = JArr [], list_loading = True, list_error = JNull\<rparr>"

fun isArray :: "jsval \<Rightarrow> bool" where
  "isArray (JArr xs) = True"
| "isArray v = False"

text \<open>\<^verbatim>\<open>loadProfiles\<close> up to its \<^verbatim>\<open>await\<close>, and from there on.\<close>

definition loadProfiles_begin :: "list_state \<Rightarrow> list_state" where
  "loadProfiles_begin s = s\<lparr>list_loading := True, list_error := JNull\<rparr>"

definition loadProfiles_settle :: "outcome \<Rightarrow> list_state \<Rightarrow> list_state" where
  "loadProfiles_settle out s =
     (case out of
        Resolved data \<Rightarrow> s\<lparr>profiles := (if isArray data then data else JArr [])\<rparr>
      | Rejected err \<Rightarrow>
          (case error_text err ''Failed to load profiles'' of
             Inl e \<Rightarrow> s
           | Inr txt \<Rightarrow> s\<lparr>list_error := txt\<rparr>))
     \<lparr>list_loading := False\<rparr>"

text \<open>
  A value that React accepts as a child of an element: anything but a plain object, also
  inside an array.
\<close>

fun renderable :: "jsval \<Rightarrow> bool" where
  "renderable (JObj kvs) = False"
| "renderable (JArr xs) = (\<forall>x \<in> set xs. renderable x)"
| "renderable v = True"

text \<open>
  Whether the callback of \<^verbatim>\<open>profiles.map\<close> builds the card of one entry: it reads
  \<^verbatim>\<open>profile.id || profile.profile_id\<close>, which throws on \<^verbatim>\<open>null\<close> and \<^verbatim>\<open>undefined\<close>,
  and puts the name, the role and the two counts into the card.
\<close>

definition card_renders :: "jsval \<Rightarrow> bool" where
  "card_renders p =
     (case id_or_profile_id p of
        Inl e \<Rightarrow> False
      | Inr profileId \<Rightarrow>
          renderable (opt_prop p ''name'') \<and> renderable (opt_prop p ''current_role'') \<and>
          renderable (js_or (opt_prop (opt_prop p ''skills'') ''length'') (JNum 0)) \<and>
          renderable (js_or (opt_prop (opt_prop p ''certifications'') ''length'') (JNum 0)))"

text \<open>
  What the component returns: the spinner, the error banner, the "No profiles found"
  panel, or the grid of cards (\<^verbatim>\<open>profiles.map\<close>). \<open>RenderThrows\<close> is a render that
  throws: \<^verbatim>\<open>profiles.length\<close> of \<^verbatim>\<open>null\<close>, \<^verbatim>\<open>profiles.map\<close> of a value that has none,
  an entry whose card cannot be built, or an error that is not renderable.
\<close>

datatype list_screen =
    Spinner
  | ErrorBanner jsval
  | NoProfilesFound
  | Cards "jsval list"
  | RenderThrows

definition render_list :: "list_state \<Rightarrow> list_screen" where
  "render_list s =
     (if list_loading s then Spinner
      else if truthy (list_error s)
      then (if renderable (list_error s) then ErrorBanner (list_error s) else RenderThrows)
      else (case get_prop (profiles s) ''length'' of
              Inl e \<Rightarrow> RenderThrows
            | Inr n \<Rightarrow>
                if n = JNum 0 then NoProfilesFound
                else (case profiles s of
                        JArr xs \<Rightarrow> if list_all card_renders xs then Cards xs else RenderThrows
                      | _ \<Rightarrow> RenderThrows)))"

text \<open>
  \<^verbatim>\<open>{...profile, id: profileId}\<close>. The spread is only reached with a truthy
  \<open>profileId\<close>, which only an object can carry; the last equation gives the object made
  from a value without own properties.
\<close>

fun spread_id :: "jsval \<Rightarrow> jsval \<Rightarrow> jsval" where
  "spread_id (JObj kvs) v = JObj (AList.update ''id'' v kvs)"
| "spread_id p v = JObj [(''id'', v)]"

text \<open>
  The click handler of one card, for the card's \<open>profile\<close> and the \<open>profileId\<close> computed
  when the card was rendered; \<open>onSelectProfile\<close> says whether the prop was passed.
\<close>

datatype click = Select jsval | Alert string

definition card_onClick :: "bool \<Rightarrow> jsval \<Rightarrow> jsval \<Rightarrow> click" where
  "card_onClick onSelectProfile profile profileId =
     (if onSelectProfile \<and> truthy profileId then Select (spread_id profile profileId)
      else Alert ''Error: Profile ID not found'')"

section \<open>ProfileDisplay\<close>

record display_state =
  profile :: jsval
  pd_loading :: bool
  pd_error :: jsval
  showAnalysis :: bool
  analysisQuery :: string
  pd_targetRole :: string
  analyzing :: bool
  analysisResult :: jsval
  analysisError :: jsval
  showSkillsModal :: bool
  modalSkills :: jsval
  modalTitle :: string

definition display_init :: display_state where
  "display_init =
     \<lparr>profile = JNull, pd_loading = True, pd_error = JNull, showAnalysis = False,
      analysisQuery = [], pd_targetRole = [], analyzing = False, analysisResult = JNull,
      analysisError = JNull, showSkillsModal = False, modalSkills = JArr [],
      modalTitle = []\<rparr>"

text \<open>
  \<^verbatim>\<open>loadProfile\<close> up to its \<^verbatim>\<open>await\<close>, with the id handed to \<^verbatim>\<open>profileAPI.get\<close>
  (\<open>None\<close> when no call is made), and from there on.
\<close>

definition loadProfile_begin :: "jsval \<Rightarrow> display_state \<Rightarrow> display_state \<times> jsval option" where
  "loadProfile_begin profileId s =
     (if \<not> truthy profileId
      then (s\<lparr>pd_loading := False, pd_error := JStr ''No profile ID provided''\<rparr>, None)
      else (s\<lparr>pd_loading := True, pd_error := JNull\<rparr>, Some profileId))"

definition loadProfile_settle :: "outcome \<Rightarrow> display_state \<Rightarrow> display_state" where
  "loadProfile_settle out s =
     (case out of
        Resolved data \<Rightarrow> s\<lparr>profile := data\<rparr>
      | Rejected err \<Rightarrow>
          (case error_text err ''Failed to load profile'' of
             Inl e \<Rightarrow> s
           | Inr txt \<Rightarrow> s\<lparr>pd_error := txt\<rparr>))
     \<lparr>pd_loading := False\<rparr>"

text \<open>The effect that runs on mount and whenever the \<open>profileId\<close> prop changes.\<close>

definition profileId_effect :: "jsval \<Rightarrow> display_state \<Rightarrow> display_state \<times> jsval option" where
  "profileId_effect profileId s =
     (if truthy profileId then loadProfile_begin profileId s
      else (s\<lparr>pd_loading := False, pd_error := JStr ''No profile ID provided''\<rparr>, None))"

text \<open>\<^verbatim>\<open>handleAnalyze\<close> of the dashboard, up to its \<^verbatim>\<open>await\<close> and from there on.\<close>

definition handleAnalyze_begin ::
  "jsval \<Rightarrow> display_state \<Rightarrow> display_state \<times> analysis_request option" where
  "handleAnalyze_begin profileId s =
     (if \<not> truthy profileId
      then (s\<lparr>analysisError := JStr ''Profile ID is missing''\<rparr>, None)
      else
        (s\<lparr>analyzing := True, analysisError := JNull, analysisResult := JNull\<rparr>,
         Some \<lparr>user_profile_id = profileId,
               user_query =
                 (if analysisQuery s \<noteq> [] then analysisQuery s
                  else ''I want to transition to ''
                       @ (if pd_targetRole s \<noteq> [] then pd_targetRole s else ''a new role'')
                       @ ''.''),
               target_role =
                 \<lparr>role_name = (if pd_targetRole s \<noteq> [] then pd_targetRole s
                               else ''Target Role''),
                  description = [], skill_framework = []\<rparr>,
               use_rag = True\<rparr>))"

definition handleAnalyze_settle :: "outcome \<Rightarrow> display_state \<Rightarrow> display_state" where
  "handleAnalyze_settle out s =
     (case out of
        Resolved response \<Rightarrow> s\<lparr>analysisResult := response\<rparr>
      | Rejected err \<Rightarrow>
          (case error_text err ''Failed to analyze skills'' of
             Inl e \<Rightarrow> s
           | Inr txt \<Rightarrow> s\<lparr>analysisError := txt\<rparr>))
     \<lparr>analyzing := False\<rparr>"

text \<open>
  \<^verbatim>\<open>handleShowSkills\<close>: the new state and the text passed to \<^verbatim>\<open>alert\<close>, if any.
  \<^verbatim>\<open>skills.length\<close> is only read when \<open>skills\<close> is truthy, where the read cannot throw.
\<close>

definition handleShowSkills ::
  "jsval \<Rightarrow> string \<Rightarrow> display_state \<Rightarrow> display_state \<times> string option" where
  "handleShowSkills skills_arg title s =
     (if \<not> truthy skills_arg \<or> get_prop skills_arg ''length'' = Inr (JNum 0)
      then (s, Some (''No '' @ toLowerCase title @ '' found.''))
      else (s\<lparr>modalSkills := skills_arg, modalTitle := title, showSkillsModal := True\<rparr>,
            None))"

definition handleCloseModal :: "display_state \<Rightarrow> display_state" where
  "handleCloseModal s = s\<lparr>showSkillsModal := False, modalSkills := JArr [], modalTitle := []\<rparr>"

section \<open>App\<close>

datatype view = list_view | create_view | profile_view | chat_view

datatype api_status = status_checking | status_connected | status_disconnected

record app_state =
  view :: view
  selectedProfile :: jsval
  apiStatus :: api_status

definition app_init :: app_state where
  "app_init = \<lparr>view = list_view, selectedProfile = JNull, apiStatus = status_checking\<rparr>"

text \<open>\<^verbatim>\<open>checkApiHealth\<close> after its \<^verbatim>\<open>await\<close>: the one probe made on mount.\<close>

definition checkApiHealth_settle :: "outcome \<Rightarrow> app_state \<Rightarrow> app_state" where
  "checkApiHealth_settle out s =
     (case out of
        Resolved r \<Rightarrow> s\<lparr>apiStatus := status_connected\<rparr>
      | Rejected e \<Rightarrow> s\<lparr>apiStatus := status_disconnected\<rparr>)"

definition handleCreateProfile :: "app_state \<Rightarrow> app_state" where
  "handleCreateProfile s = s\<lparr>view := create_view\<rparr>"

definition handleProfileCreated :: "jsval \<Rightarrow> app_state \<Rightarrow> app_state" where
  "handleProfileCreated result s = s\<lparr>view := list_view\<rparr>"

text \<open>
  \<^verbatim>\<open>handleSelectProfile\<close>: \<open>Inl\<close> is the value thrown by reading the id of \<^verbatim>\<open>null\<close> or
  \<^verbatim>\<open>undefined\<close> (no state is set then); otherwise the new state and the text passed to
  \<^verbatim>\<open>alert\<close>, if any.
\<close>

definition handleSelectProfile ::
  "jsval \<Rightarrow> app_state \<Rightarrow> jsval + (app_state \<times> string option)" where
  "handleSelectProfile p s =
     (case id_or_profile_id p of
        Inl e \<Rightarrow> Inl e
      | Inr profileId \<Rightarrow>
          if \<not> truthy profileId
          then Inr (s, Some ''Error: Profile ID not found. Please try again.'')
          else Inr (s\<lparr>selectedProfile := spread_id p profileId, view := profile_view\<rparr>,
                    None))"

definition handleAnalyze :: "jsval \<Rightarrow> app_state \<Rightarrow> app_state" where
  "handleAnalyze p s = s\<lparr>selectedProfile := p, view := chat_view\<rparr>"

definition handleBackToList :: "app_state \<Rightarrow> app_state" where
  "handleBackToList s = s\<lparr>view := list_view, selectedProfile := JNull\<rparr>"

text \<open>
  The child that \<^verbatim>\<open>main\<close> renders. The detail view gets the prop
  \<^verbatim>\<open>profileId = selectedProfile.id || selectedProfile.profile_id || selectedProfile.id\<close>,
  the chat view gets the selected profile; both are only rendered for a truthy
  \<open>selectedProfile\<close>, where the property reads cannot throw.
\<close>

datatype screen =
    ProfileList
  | ProfileForm
  | ProfileDisplay jsval
  | AnalysisChat jsval
  | Nothing

definition render_main :: "app_state \<Rightarrow> screen" where
  "render_main s =
     (case view s of
        list_view \<Rightarrow> ProfileList
      | create_view \<Rightarrow> ProfileForm
      | profile_view \<Rightarrow>
          if truthy (selectedProfile s)
          then ProfileDisplay
                 (js_or (js_or (opt_prop (selectedProfile s) ''id'')
                               (opt_prop (selectedProfile s) ''profile_id''))
                        (opt_prop (selectedProfile s) ''id''))
          else Nothing
      | chat_view \<Rightarrow>
          if truthy (selectedProfile s) then AnalysisChat (selectedProfile s) else Nothing)"

text \<open>
  A click on the card that the list rendered for the record \<open>p\<close>, wired to
  \<^verbatim>\<open>handleSelectProfile\<close> as \<^verbatim>\<open>App\<close> does. The card computes
  \<^verbatim>\<open>profile.id || profile.profile_id\<close> when it is rendered; \<open>Inl\<close> is the value thrown
  there for a record that is \<^verbatim>\<open>null\<close> or \<^verbatim>\<open>undefined\<close>, for which no card exists.
\<close>

definition select_card :: "jsval \<Rightarrow> app_state \<Rightarrow> jsval + (app_state \<times> string option)" where
  "select_card p s =
     (case id_or_profile_id p of
        Inl e \<Rightarrow> Inl e
      | Inr profileId \<Rightarrow>
          (case card_onClick True p profileId of
             Select q \<Rightarrow> handleSelectProfile q s
           | Alert txt \<Rightarrow> Inr (s, Some txt)))"

subsection \<open>The router over time\<close>

text \<open>
  What can happen to the router: the callbacks it hands to its children are invoked, a
  card of the list is clicked, or the health probe settles. A callback that throws leaves
  the state as it was.
\<close>

datatype app_event =
    CreateNew
  | ProfileCreated jsval
  | CardClicked jsval
  | SelectProfile jsval
  | Analyze jsval
  | BackToList
  | HealthChecked outcome

fun app_step :: "app_event \<Rightarrow> app_state \<Rightarrow> app_state" where
  "app_step CreateNew s = handleCreateProfile s"
| "app_step (ProfileCreated r) s = handleProfileCreated r s"
| "app_step (CardClicked p) s = (case select_card p s of Inl e \<Rightarrow> s | Inr (s', a) \<Rightarrow> s')"
| "app_step (SelectProfile p) s =
     (case handleSelectProfile p s of Inl e \<Rightarrow> s | Inr (s', a) \<Rightarrow> s')"
| "app_step (Analyze p) s = handleAnalyze p s"
| "app_step BackToList s = handleBackToList s"
| "app_step (HealthChecked out) s = checkApiHealth_settle out s"

primrec app_run :: "app_event list \<Rightarrow> app_state \<Rightarrow> app_state" where
  "app_run [] s = s"
| "app_run (e # es) s = app_run es (app_step e s)"

text \<open>
  What holds of the router after any sequence of events: while the detail view is selected,
  the selected profile is an object with a truthy \<^verbatim>\<open>id\<close>.
\<close>

definition app_inv :: "app_state \<Rightarrow> bool" where
  "app_inv s \<longleftrightarrow>
     (view s = profile_view \<longrightarrow>
        truthy (selectedProfile s) \<and> truthy (opt_prop (selectedProfile s) ''id''))"

section \<open>The application over time\<close>

text \<open>
  \<^verbatim>\<open>App\<close> renders at most one of the detail view and the chat view, and each time one
  of them is mounted it is a new instance of the component with its own \<^verbatim>\<open>useState\<close>
  cells, set to their initial values. A handler closes over the setters of the instance
  that rendered it, so the continuation of an awaited call sets the cells of the instance
  that issued the call; React ignores a state update for an instance that is no longer
  mounted. The list and the form hold no state that the detail and chat views read.

  \<open>generation\<close> counts the detail and chat views mounted so far: the mounted one, if any,
  is number \<open>generation\<close>. \<open>calls\<close> holds the calls that were issued and have not settled,
  each with the number of the instance that awaits it.
\<close>

datatype view_state = DetailState display_state | ChatState chat_state | NoState

datatype call =
    GetProfile nat jsval
  | DashboardAnalyze nat analysis_request
  | ChatAnalyze nat analysis_request

fun issuer :: "call \<Rightarrow> nat" where
  "issuer (GetProfile i profileId) = i"
| "issuer (DashboardAnalyze i rq) = i"
| "issuer (ChatAnalyze i rq) = i"

record system =
  router :: app_state
  generation :: nat
  mounted :: view_state
  calls :: "call list"

definition system_init :: system where
  "system_init = \<lparr>router = app_init, generation = 0, mounted = NoState, calls = []\<rparr>"

text \<open>
  React renders \<^verbatim>\<open>App\<close> again after its state has become \<open>r'\<close>. A detail view that
  stays in its place keeps its instance, and its \<^verbatim>\<open>[profileId]\<close> effect runs again when
  the prop has changed; a chat view that stays in its place keeps its instance. Otherwise
  the old view is unmounted, and a detail or chat view that appears is mounted as a new
  instance, a detail view running its effect for the first time.
\<close>

definition commit :: "app_state \<Rightarrow> system \<Rightarrow> system" where
  "commit r' sys =
     (case render_main r' of
        ProfileDisplay profileId' \<Rightarrow>
          (case (render_main (router sys), mounted sys) of
             (ProfileDisplay profileId, DetailState d) \<Rightarrow>
               if profileId' = profileId then sys\<lparr>router := r'\<rparr>
               else
                 (case profileId_effect profileId' d of
                    (d', rq) \<Rightarrow>
                      sys\<lparr>router := r', mounted := DetailState d',
                          calls := calls sys @
                            (case rq of None \<Rightarrow> []
                             | Some i \<Rightarrow> [GetProfile (generation sys) i])\<rparr>)
           | _ \<Rightarrow>
               (case profileId_effect profileId' display_init of
                  (d', rq) \<Rightarrow>
                    sys\<lparr>router := r', generation := Suc (generation sys),
                        mounted := DetailState d',
                        calls := calls sys @
                          (case rq of None \<Rightarrow> []
                           | Some i \<Rightarrow> [GetProfile (Suc (generation sys)) i])\<rparr>))
      | AnalysisChat p' \<Rightarrow>
          (case (render_main (router sys), mounted sys) of
             (AnalysisChat p, ChatState c) \<Rightarrow> sys\<lparr>router := r'\<rparr>
           | _ \<Rightarrow>
               sys\<lparr>router := r', generation := Suc (generation sys),
                   mounted := ChatState chat_init\<rparr>)
      | _ \<Rightarrow> sys\<lparr>router := r', mounted := NoState\<rparr>)"

text \<open>
  The continuation of a settled call, run on the state of the instance that awaits it.
\<close>

fun deliver :: "call \<Rightarrow> outcome \<Rightarrow> nat \<Rightarrow> view_state \<Rightarrow> view_state" where
  "deliver (GetProfile i profileId) out now (DetailState d) =
     DetailState (loadProfile_settle out d)"
| "deliver (DashboardAnalyze i rq) out now (DetailState d) =
     DetailState (handleAnalyze_settle out d)"
| "deliver (ChatAnalyze i rq) out now (ChatState c) =
     ChatState (handleSend_settle out now c)"
| "deliver c out now v = v"

text \<open>
  What can happen to the application. A card can be clicked and a profile created only
  while the list is rendered; "Analyze Skills" can be clicked while the detail view shows
  a loaded profile, which it hands to the router; the events of the chat view and of the
  dashboard need that view to be mounted. \<^verbatim>\<open>onSuccess\<close> of the form and the back
  navigation are taken at any time. \<open>Settles k out now\<close> is the \<open>k\<close>-th outstanding call
  settling with \<open>out\<close> when the clock reads \<open>now\<close>. An event that cannot happen in a state
  leaves it unchanged.
\<close>

datatype sys_event =
    ClickCreateNew
  | ClickCard jsval
  | CreateSucceeded jsval
  | ClickBack
  | ClickAnalyzeSkills
  | HealthSettles outcome
  | TypeQuery string
  | TypeTargetRole string
  | ClickSend nat
  | TypeDashboardRole string
  | TypeDashboardQuery string
  | ToggleAnalysis
  | ClickAnalyze
  | ClickShowSkills jsval string
  | ClickCloseModal
  | Settles nat outcome nat

fun sys_step :: "sys_event \<Rightarrow> system \<Rightarrow> system" where
  "sys_step ClickCreateNew sys =
     (if render_main (router sys) = ProfileList
      then commit (handleCreateProfile (router sys)) sys else sys)"
| "sys_step (ClickCard p) sys =
     (if render_main (router sys) = ProfileList
      then (case select_card p (router sys) of
              Inl e \<Rightarrow> sys
            | Inr (r', a) \<Rightarrow> commit r' sys)
      else sys)"
| "sys_step (CreateSucceeded result) sys = commit (handleProfileCreated result (router sys)) sys"
| "sys_step ClickBack sys = commit (handleBackToList (router sys)) sys"
| "sys_step ClickAnalyzeSkills sys =
     (case mounted sys of
        DetailState d \<Rightarrow>
          if \<not> pd_loading d \<and> \<not> truthy (pd_error d) \<and> truthy (profile d)
          then commit (handleAnalyze (profile d) (router sys)) sys else sys
      | _ \<Rightarrow> sys)"
| "sys_step (HealthSettles out) sys = commit (checkApiHealth_settle out (router sys)) sys"
| "sys_step (TypeQuery v) sys =
     (case mounted sys of
        ChatState c \<Rightarrow> sys\<lparr>mounted := ChatState (c\<lparr>input := v\<rparr>)\<rparr>
      | _ \<Rightarrow> sys)"
| "sys_step (TypeTargetRole v) sys =
     (case mounted sys of
        ChatState c \<Rightarrow> sys\<lparr>mounted := ChatState (c\<lparr>targetRole := v\<rparr>)\<rparr>
      | _ \<Rightarrow> sys)"
| "sys_step (ClickSend now) sys =
     (case (render_main (router sys), mounted sys) of
        (AnalysisChat p, ChatState c) \<Rightarrow>
          (case handleSend_begin p now c of
             (c', rq) \<Rightarrow>
               sys\<lparr>mounted := ChatState c',
                   calls := calls sys @
                     (case rq of None \<Rightarrow> []
                      | Some q \<Rightarrow> [ChatAnalyze (generation sys) q])\<rparr>)
      | _ \<Rightarrow> sys)"
| "sys_step (TypeDashboardRole v) sys =
     (case mounted sys of
        DetailState d \<Rightarrow> sys\<lparr>mounted := DetailState (d\<lparr>pd_targetRole := v\<rparr>)\<rparr>
      | _ \<Rightarrow> sys)"
| "sys_step (TypeDashboardQuery v) sys =
     (case mounted sys of
        DetailState d \<Rightarrow> sys\<lparr>mounted := DetailState (d\<lparr>analysisQuery := v\<rparr>)\<rparr>
      | _ \<Rightarrow> sys)"
| "sys_step ToggleAnalysis sys =
     (case mounted sys of
        DetailState d \<Rightarrow> sys\<lparr>mounted := DetailState (d\<lparr>showAnalysis := \<not> showAnalysis d\<rparr>)\<rparr>
      | _ \<Rightarrow> sys)"
| "sys_step ClickAnalyze sys =
     (case (render_main (router sys), mounted sys) of
        (ProfileDisplay profileId, DetailState d) \<Rightarrow>
          (case handleAnalyze_begin profileId d of
             (d', rq) \<Rightarrow>
               sys\<lparr>mounted := DetailState d',
                   calls := calls sys @
                     (case rq of None \<Rightarrow> []
                      | Some q \<Rightarrow> [DashboardAnalyze (generation sys) q])\<rparr>)
      | _ \<Rightarrow> sys)"
| "sys_step (ClickShowSkills skills_arg title) sys =
     (case mounted sys of
        DetailState d \<Rightarrow> sys\<lparr>mounted := DetailState (fst (handleShowSkills skills_arg title d))\<rparr>
      | _ \<Rightarrow> sys)"
| "sys_step ClickCloseModal sys =
     (case mounted sys of
        DetailState d \<Rightarrow> sys\<lparr>mounted := DetailState (handleCloseModal d)\<rparr>
      | _ \<Rightarrow> sys)"
| "sys_step (Settles k out now) sys =
     (if k < length (calls sys)
      then sys\<lparr>calls := remove_at k (calls sys),
               mounted := (if issuer (calls sys ! k) = generation sys
                           then deliver (calls sys ! k) out now (mounted sys)
                           else mounted sys)\<rparr>
      else sys)"

primrec sys_run :: "sys_event list \<Rightarrow> system \<Rightarrow> system" where
  "sys_run [] sys = sys"
| "sys_run (e # es) sys = sys_run es (sys_step e sys)"

text \<open>
  A call is for the profile on screen when the detail view is rendered with the id the
  call was made for, or the chat view is rendered with the profile whose id the request
  carries.
\<close>

fun for_shown_profile :: "call \<Rightarrow> screen \<Rightarrow> bool" where
  "for_shown_profile (GetProfile i profileId) (ProfileDisplay shown) = (profileId = shown)"
| "for_shown_profile (DashboardAnalyze i rq) (ProfileDisplay shown) =
     (user_profile_id rq = shown)"
| "for_shown_profile (ChatAnalyze i rq) (AnalysisChat p) =
     (id_or_profile_id p = Inr (user_profile_id rq))"
| "for_shown_profile c scr = False"

text \<open>
  The mounted view is the one the router renders.
\<close>

fun mounted_fits :: "screen \<Rightarrow> view_state \<Rightarrow> bool" where
  "mounted_fits (ProfileDisplay profileId) (DetailState d) = True"
| "mounted_fits (ProfileDisplay profileId) v = False"
| "mounted_fits (AnalysisChat p) (ChatState c) = True"
| "mounted_fits (AnalysisChat p) v = False"
| "mounted_fits scr NoState = True"
| "mounted_fits scr v = False"

text \<open>
  What holds of the application after any sequence of events: the mounted view is the one
  the router renders, no outstanding call belongs to an instance that is yet to be mounted,
  and every outstanding call of the mounted instance is for the profile on screen.
\<close>

definition sys_inv :: "system \<Rightarrow> bool" where
  "sys_inv sys \<longleftrightarrow>
     mounted_fits (render_main (router sys)) (mounted sys) \<and>
     (\<forall>c \<in> set (calls sys).
        issuer c \<le> generation sys \<and>
        (issuer c = generation sys \<and> mounted sys \<noteq> NoState \<longrightarrow>
           for_shown_profile c (render_main (router sys))))"

section \<open>Invariant of the chat view\<close>

text \<open>
  What holds of a chat view after any sequence of events: the busy flag is set exactly
  while a request is outstanding, at most one request is outstanding, the log is made of
  exchanges, and while a request is outstanding the log ends with its user message.
\<close>

definition chat_inv :: "chat_sys \<Rightarrow> bool" where
  "chat_inv c \<longleftrightarrow>
     (loading (chat c) \<longleftrightarrow> in_flight c \<noteq> []) \<and> length (in_flight c) \<le> 1 \<and>
     exchanges (messages (chat c)) \<and>
     (in_flight c \<noteq> [] \<longrightarrow> messages (chat c) \<noteq> [] \<and> msg_type (last (messages (chat c))) = User)"

section \<open>Sample data\<close>

text \<open>Concrete values on which the theorems below are instantiated.\<close>

definition sample_profile :: jsval where
  "sample_profile = JObj [(''id'', JStr ''p1''), (''name'', JStr ''Ada'')]"

definition ready_chat :: chat_state where
  "ready_chat = \<lparr>messages = [], input = ''move into leadership'', loading = False,
                  targetRole = ''Senior Architect''\<rparr>"

definition blank_role_chat :: chat_state where
  "blank_role_chat = \<lparr>messages = [], input = ''move into leadership'', loading = False,
                       targetRole = ''  ''\<rparr>"

definition sent_chat :: chat_state where
  "sent_chat = \<lparr>messages = [userMessage ''move into leadership'' 1], input = [],
                 loading = True, targetRole = ''Senior Architect''\<rparr>"

definition sent_request :: analysis_request where
  "sent_request =
     \<lparr>user_profile_id = JStr ''p1'', user_query = ''move into leadership'',
      target_role = \<lparr>role_name = ''Senior Architect'', description = [],
                     skill_framework = []\<rparr>,
      use_rag = True\<rparr>"

definition sample_report :: jsval where
  "sample_report =
     JObj [(''analysis_summary'', JStr ''Two skills are missing''),
           (''overall_gap_score'', JNum 62), (''skills_met'', JArr []),
           (''skills_missing'', JArr [JObj [(''skill_name'', JStr ''Kubernetes'')]]),
           (''skills_weak'', JArr [])]"

definition not_found_rejection :: jsval where
  "not_found_rejection =
     JObj [(''message'', JStr ''Request failed with status code 404''),
           (''response'', JObj [(''status'', JNum 404),
                                (''data'', JObj [(''detail'', JStr ''profile not found'')])])]"

definition sample_session :: "chat_event list" where
  "sample_session =
     [SetTargetRole ''Senior Architect'', SetInput ''move into leadership'', Send 1,
      SetInput ''and then'', Send 2, Settle (Resolved sample_report) 3]"

definition profile_two :: jsval where
  "profile_two = JObj [(''id'', JStr ''p2''), (''name'', JStr ''Grace'')]"

text \<open>
  Two races. In the first the profile p1 is opened, left by the back navigation, and p2 is
  opened; the answer for p2 has arrived, the one for p1 is still outstanding. In the second
  an analysis is submitted in the chat view of p1, the chat is left, and the chat view of
  p2 is opened while that analysis is still outstanding.
\<close>

definition profile_race :: "sys_event list" where
  "profile_race =
     [ClickCard sample_profile, ClickBack, ClickCard profile_two,
      Settles 1 (Resolved profile_two) 4]"

definition analyze_race :: "sys_event list" where
  "analyze_race =
     [ClickCard sample_profile, Settles 0 (Resolved sample_profile) 1, ClickAnalyzeSkills,
      TypeTargetRole ''Senior Architect'', TypeQuery ''move into leadership'', ClickSend 2,
      ClickBack, ClickCard profile_two, Settles 1 (Resolved profile_two) 3,
      ClickAnalyzeSkills]"

definition default_dashboard_request :: analysis_request where
  "default_dashboard_request =
     \<lparr>user_profile_id = JStr ''p1'', user_query = ''I want to transition to a new role.'',
      target_role = \<lparr>role_name = ''Target Role'', description = [], skill_framework = []\<rparr>,
      use_rag = True\<rparr>"

definition blank_entries_form :: form_state where
  "blank_entries_form =
     \<lparr>formData = \<lparr>name = ''Ada'', current_role = ''Engineer'',
                  skills = [\<lparr>skill_name = ''Python'', proficiency = advanced,
                             years_experience = 5\<rparr>],
                  certifications = [''AWS SA''], experience_years = 7\<rparr>,
      newSkill = \<lparr>skill_name = ''   '', proficiency = expert, years_experience = 3\<rparr>,
      newCert = [CHR 0x09, CHR 0x20], form_loading = False, form_error = JNull\<rparr>"

definition malformed_list_payload :: jsval where
  "malformed_list_payload = JObj [(''profiles'', JArr [])]"

definition legacy_id_record :: jsval where
  "legacy_id_record = JObj [(''profile_id'', JStr ''p7''), (''name'', JStr ''Lin'')]"

definition no_id_record :: jsval where
  "no_id_record = JObj [(''name'', JStr ''Nameless''), (''id'', JStr [])]"

section \<open>Properties\<close>

subsection \<open>Auxiliary facts\<close>

lemma settle_not_loading: "\<not> loading (handleSend_settle out t s)"
  by (simp add: handleSend_settle_def handleSend_finally_def)

lemma error_text_typeError: "\<exists>txt. error_text (typeError b k) f = Inr (JStr txt) \<and> txt \<noteq> []"
  by (simp add: error_text_def typeError_def js_or_def)

lemma id_or_profile_id_Inl: "id_or_profile_id p = Inl e \<Longrightarrow> \<exists>b. e = typeError b ''id''"
  by (cases p) (auto simp: id_or_profile_id_def split: if_splits)

lemma get_prop_Inl: "get_prop v k = Inl e \<Longrightarrow> \<exists>b. e = typeError b k"
  by (cases v) auto

lemma begin_issued:
  assumes "handleSend_begin p now s = (s1, Some req)"
  shows "trim (input s) \<noteq> [] \<and> trim (targetRole s) \<noteq> [] \<and> \<not> loading s
       \<and> s1 = s\<lparr>messages := messages s @ [userMessage (input s) now], loading := True, input := []\<rparr>
       \<and> user_query req = input s \<and> role_name (target_role req) = targetRole s
       \<and> id_or_profile_id p = Inr (user_profile_id req) \<and> use_rag req"
  using assms
  by (auto simp: handleSend_begin_def Let_def split: if_splits sum.splits)

lemma begin_not_issued:
  assumes "trim (input s) \<noteq> []" "trim (targetRole s) \<noteq> []" "\<not> loading s"
    and "handleSend_begin p now s = (s1, None)"
  shows "\<exists>txt. messages s1 = messages s @ [userMessage (input s) now, errorMessage txt now]
            \<and> \<not> loading s1 \<and> input s1 = [] \<and> targetRole s1 = targetRole s"
proof (cases "id_or_profile_id p")
  case (Inl e)
  then obtain b where e: "e = typeError b ''id''" using id_or_profile_id_Inl by blast
  obtain tx where "error_text e ''Failed to analyze skills'' = Inr (JStr tx)"
    using error_text_typeError e by blast
  with Inl assms show ?thesis
    by (auto simp: handleSend_begin_def handleSend_catch_def handleSend_finally_def)
next
  case (Inr pid)
  with assms show ?thesis by (simp add: handleSend_begin_def)
qed

lemma settle_messages:
  "\<exists>reply. messages (handleSend_settle out t s) = messages s @ reply \<and> length reply \<le> 1
       \<and> (\<forall>m \<in> set reply. msg_type m \<noteq> User \<and> timestamp m = t)"
  by (auto simp: handleSend_settle_def handleSend_finally_def handleSend_catch_def
      assistantMessage_def errorMessage_def split: outcome.splits sum.splits)

lemma begin_messages:
  "\<exists>new. messages (fst (handleSend_begin p now s)) = messages s @ new"
  by (auto simp: handleSend_begin_def Let_def handleSend_finally_def handleSend_catch_def
      split: sum.splits)

lemma chat_step_prefix:
  "prefix (messages (chat c)) (messages (chat (chat_step p e c)))"
proof (cases e)
  case (Send now)
  obtain new where "messages (fst (handleSend_begin p now (chat c))) = messages (chat c) @ new"
    using begin_messages by blast
  with Send show ?thesis by (simp add: split_beta)
next
  case (Settle out now)
  obtain reply where "messages (handleSend_settle out now (chat c)) = messages (chat c) @ reply"
    using settle_messages by blast
  with Settle show ?thesis by (simp split: list.splits)
qed simp_all

lemma chat_run_prefix:
  "prefix (messages (chat c)) (messages (chat (chat_run p es c)))"
proof (induction es arbitrary: c)
  case Nil
  show ?case by simp
next
  case (Cons e es)
  have "prefix (messages (chat c)) (messages (chat (chat_step p e c)))"
    by (rule chat_step_prefix)
  also have "prefix \<dots> (messages (chat (chat_run p es (chat_step p e c))))"
    by (rule Cons.IH)
  finally show ?case by simp
qed

lemma exchanges_snoc_user:
  "exchanges ms \<Longrightarrow> msg_type u = User \<Longrightarrow> exchanges (ms @ [u])"
  by (induction ms rule: exchanges.induct) auto

lemma exchanges_snoc_reply:
  "exchanges ms \<Longrightarrow> ms \<noteq> [] \<Longrightarrow> msg_type (last ms) = User \<Longrightarrow> exchanges (ms @ [r])"
  by (induction ms rule: exchanges.induct) (auto split: if_splits)

lemma exchanges_nth:
  "exchanges ms \<Longrightarrow> i < length ms \<Longrightarrow> msg_type (ms ! i) \<noteq> User \<Longrightarrow>
   0 < i \<and> msg_type (ms ! (i - 1)) = User"
proof (induction ms arbitrary: i rule: exchanges.induct)
  case 1
  then show ?case by simp
next
  case (2 m)
  then show ?case by simp
next
  case (3 m r ms)
  from "3.prems"(1) have m: "msg_type m = User" by simp
  show ?case
  proof (cases i)
    case 0
    with "3.prems"(3) m show ?thesis by simp
  next
    case (Suc j)
    note i = Suc
    show ?thesis
    proof (cases "msg_type r = User")
      case True
      with "3.prems"(1) have ex: "exchanges (r # ms)" by simp
      from i "3.prems"(2) have jl: "j < length (r # ms)" by simp
      from i "3.prems"(3) have jn: "msg_type ((r # ms) ! j) \<noteq> User" by simp
      from "3.IH"(1)[OF True ex jl jn]
      have "0 < j" and "msg_type ((r # ms) ! (j - 1)) = User" by simp_all
      then obtain k where k: "j = Suc k" by (cases j) simp_all
      with \<open>msg_type ((r # ms) ! (j - 1)) = User\<close> i show ?thesis by simp
    next
      case False
      with "3.prems"(1) have ex: "exchanges ms" by simp
      show ?thesis
      proof (cases j)
        case 0
        with i m show ?thesis by simp
      next
        case (Suc k)
        with i "3.prems"(2) have kl: "k < length ms" by simp
        from Suc i "3.prems"(3) have kn: "msg_type (ms ! k) \<noteq> User" by simp
        from "3.IH"(2)[OF False ex kl kn]
        have "0 < k" and "msg_type (ms ! (k - 1)) = User" by simp_all
        then obtain l where "k = Suc l" by (cases k) simp_all
        with \<open>msg_type (ms ! (k - 1)) = User\<close> Suc i show ?thesis by simp
      qed
    qed
  qed
qed

lemma chat_inv_start: "chat_inv chat_start"
  by (simp add: chat_inv_def chat_start_def chat_init_def)

lemma chat_inv_step:
  assumes "chat_inv c"
  shows "chat_inv (chat_step p e c)"
proof (cases e)
  case (SetInput v)
  with assms show ?thesis by (simp add: chat_inv_def)
next
  case (SetTargetRole v)
  with assms show ?thesis by (simp add: chat_inv_def)
next
  case (Send now)
  let ?s = "chat c"
  obtain s1 r where b: "handleSend_begin p now ?s = (s1, r)" by (cases "handleSend_begin p now ?s")
  show ?thesis
  proof (cases "trim (input ?s) = [] \<or> trim (targetRole ?s) = [] \<or> loading ?s")
    case True
    then have "handleSend_begin p now ?s = (?s, None)" by (simp add: handleSend_begin_def)
    with Send assms show ?thesis by (simp add: chat_inv_def)
  next
    case False
    with assms have nil: "in_flight c = []" by (simp add: chat_inv_def)
    have um: "msg_type (userMessage (input ?s) now) = User" by (simp add: userMessage_def)
    show ?thesis
    proof (cases r)
      case None
      with False b obtain tx where
        "messages s1 = messages ?s @ [userMessage (input ?s) now, errorMessage tx now]" "\<not> loading s1"
        using begin_not_issued[of ?s p now s1] by auto
      moreover have "exchanges ((messages ?s @ [userMessage (input ?s) now]) @ [errorMessage tx now])"
        using assms um by (intro exchanges_snoc_reply exchanges_snoc_user) (simp_all add: chat_inv_def)
      ultimately show ?thesis using Send b None nil by (simp add: chat_inv_def)
    next
      case (Some req)
      with b have "s1 = ?s\<lparr>messages := messages ?s @ [userMessage (input ?s) now], loading := True, input := []\<rparr>"
        using begin_issued by blast
      moreover have "exchanges (messages ?s @ [userMessage (input ?s) now])"
        using assms um by (intro exchanges_snoc_user) (simp_all add: chat_inv_def)
      ultimately show ?thesis using Send b Some nil um by (simp add: chat_inv_def)
    qed
  qed
next
  case (Settle out now)
  show ?thesis
  proof (cases "in_flight c")
    case Nil
    with Settle assms show ?thesis by simp
  next
    case (Cons q qs)
    with assms have qs: "qs = []" and ne: "messages (chat c) \<noteq> []"
      and lst: "msg_type (last (messages (chat c))) = User" and ex: "exchanges (messages (chat c))"
      by (simp_all add: chat_inv_def)
    obtain reply where r: "messages (handleSend_settle out now (chat c)) = messages (chat c) @ reply"
      "length reply \<le> 1" using settle_messages by blast
    have "exchanges (messages (chat c) @ reply)"
    proof (cases reply)
      case Nil
      with ex show ?thesis by simp
    next
      case (Cons m ms)
      with r have "reply = [m]" by simp
      with ex ne lst show ?thesis by (simp add: exchanges_snoc_reply)
    qed
    with Settle Cons qs r show ?thesis
      by (simp add: chat_inv_def settle_not_loading)
  qed
qed

lemma chat_inv_run: "chat_inv c \<Longrightarrow> chat_inv (chat_run p es c)"
  by (induction es arbitrary: c) (simp_all add: chat_inv_step)

lemma trim_nonempty: "trim s \<noteq> [] \<Longrightarrow> s \<noteq> []"
  by (auto simp: trim_def)

lemma get_prop_opt_prop:
  "v \<noteq> JNull \<Longrightarrow> v \<noteq> JUndefined \<Longrightarrow> get_prop v k = Inr (opt_prop v k)"
  by (cases v) simp_all

lemma error_text_precedence:
  assumes "err \<noteq> JNull" "err \<noteq> JUndefined"
  shows "error_text err fallback =
           Inr (if truthy (opt_prop (opt_prop (opt_prop err ''response'') ''data'') ''detail'')
                then opt_prop (opt_prop (opt_prop err ''response'') ''data'') ''detail''
                else if truthy (opt_prop err ''message'') then opt_prop err ''message''
                else JStr fallback)"
  using assms by (simp add: error_text_def get_prop_opt_prop js_or_def)

lemma ready_chat_begin:
  "handleSend_begin sample_profile 1 ready_chat = (sent_chat, Some sent_request)"
  by (simp add: handleSend_begin_def ready_chat_def sample_profile_def trim_def is_ws_def
      id_or_profile_id_def sent_chat_def sent_request_def)

lemma null_profile_begin:
  "trim (input ready_chat) \<noteq> [] \<and> trim (targetRole ready_chat) \<noteq> [] \<and>
   \<not> loading ready_chat \<and> snd (handleSend_begin JNull 1 ready_chat) = None"
  by (simp add: handleSend_begin_def ready_chat_def trim_def is_ws_def id_or_profile_id_def)

lemma sample_session_run:
  "chat_run sample_profile sample_session chat_start =
     \<lparr>chat = \<lparr>messages = [userMessage ''move into leadership'' 1,
                           assistantMessage (JStr ''Two skills are missing'') sample_report 3],
              input = ''and then'', loading = False, targetRole = ''Senior Architect''\<rparr>,
      in_flight = []\<rparr>"
  by (simp add: sample_session_def chat_start_def chat_init_def handleSend_begin_def
      handleSend_settle_def handleSend_finally_def sample_profile_def sample_report_def
      trim_def is_ws_def id_or_profile_id_def)

lemma opt_prop_spread_id: "opt_prop (spread_id p v) ''id'' = v"
  by (cases p) (simp_all add: update_conv')

lemma truthy_spread_id: "truthy (spread_id p v)"
  by (cases p) simp_all

lemma id_or_profile_id_spread:
  "truthy v \<Longrightarrow> id_or_profile_id (spread_id p v) = Inr v"
  by (cases p) (simp_all add: id_or_profile_id_def update_conv')

lemma spread_id_twice: "spread_id (spread_id p v) v = spread_id p v"
  by (cases p) simp_all

lemma handleSelectProfile_cases:
  "id_or_profile_id p = Inr pid \<Longrightarrow>
   handleSelectProfile p s =
     (if truthy pid
      then Inr (s\<lparr>selectedProfile := spread_id p pid, view := profile_view\<rparr>, None)
      else Inr (s, Some ''Error: Profile ID not found. Please try again.''))"
  by (simp add: handleSelectProfile_def)

lemma select_card_cases:
  "id_or_profile_id p = Inr pid \<Longrightarrow>
   select_card p s =
     (if truthy pid
      then Inr (s\<lparr>selectedProfile := spread_id p pid, view := profile_view\<rparr>, None)
      else Inr (s, Some ''Error: Profile ID not found''))"
  by (simp add: select_card_def card_onClick_def handleSelectProfile_cases
      id_or_profile_id_spread spread_id_twice)

lemma select_unresolved:
  "id_or_profile_id p = Inl e \<Longrightarrow> handleSelectProfile p s = Inl e \<and> select_card p s = Inl e"
  by (simp add: handleSelectProfile_def select_card_def)

lemma render_selected:
  "truthy pid \<Longrightarrow>
   render_main (s\<lparr>selectedProfile := spread_id p pid, view := profile_view\<rparr>) = ProfileDisplay pid"
  by (simp add: render_main_def truthy_spread_id opt_prop_spread_id js_or_def)

lemma app_inv_step: "app_inv s \<Longrightarrow> app_inv (app_step e s)"
proof (cases e)
  case (CardClicked p)
  assume "app_inv s"
  with CardClicked show ?thesis
    by (cases "id_or_profile_id p")
       (auto simp: select_unresolved select_card_cases app_inv_def truthy_spread_id
          opt_prop_spread_id)
next
  case (SelectProfile p)
  assume "app_inv s"
  with SelectProfile show ?thesis
    by (cases "id_or_profile_id p")
       (auto simp: select_unresolved handleSelectProfile_cases app_inv_def truthy_spread_id
          opt_prop_spread_id)
qed (simp_all add: app_inv_def handleCreateProfile_def handleProfileCreated_def
      handleAnalyze_def handleBackToList_def checkApiHealth_settle_def split: outcome.splits)

lemma app_inv_run: "app_inv s \<Longrightarrow> app_inv (app_run es s)"
  by (induction es arbitrary: s) (simp_all add: app_inv_step)

lemma app_inv_init: "app_inv app_init"
  by (simp add: app_inv_def app_init_def)

lemma app_inv_render:
  "app_inv s \<Longrightarrow> render_main s = ProfileDisplay pid \<Longrightarrow> truthy pid"
  by (auto simp: app_inv_def render_main_def js_or_def split: view.splits if_splits)

lemma dashboard_begin:
  "handleAnalyze_begin (JStr ''p1'') display_init =
     (display_init\<lparr>analyzing := True\<rparr>, Some default_dashboard_request)"
  by (simp add: handleAnalyze_begin_def display_init_def default_dashboard_request_def)

lemma profileId_effect_request:
  "profileId_effect profileId d = (d', Some i) \<Longrightarrow> i = profileId"
  by (auto simp: profileId_effect_def loadProfile_begin_def split: if_splits)

lemma handleAnalyze_begin_request:
  "handleAnalyze_begin profileId d = (d', Some rq) \<Longrightarrow> user_profile_id rq = profileId"
  by (auto simp: handleAnalyze_begin_def split: if_splits)

lemma for_shown_profile_fits:
  "for_shown_profile c scr \<Longrightarrow> (\<exists>a. scr = ProfileDisplay a) \<or> (\<exists>p. scr = AnalysisChat p)"
  by (cases c; cases scr) simp_all

lemma commit_inv:
  assumes inv: "sys_inv sys"
    and detail: "\<And>a b. render_main (router sys) = ProfileDisplay a \<Longrightarrow>
                   render_main r' = ProfileDisplay b \<Longrightarrow> a = b"
    and chat: "\<And>p q. render_main (router sys) = AnalysisChat p \<Longrightarrow>
                   render_main r' = AnalysisChat q \<Longrightarrow> p = q"
  shows "sys_inv (commit r' sys)"
proof (cases "render_main r'")
  case ProfileList
  with inv show ?thesis by (auto simp: commit_def sys_inv_def)
next
  case ProfileForm
  with inv show ?thesis by (auto simp: commit_def sys_inv_def)
next
  case Nothing
  with inv show ?thesis by (auto simp: commit_def sys_inv_def)
next
  case (ProfileDisplay b)
  show ?thesis
  proof (cases "\<exists>a d. render_main (router sys) = ProfileDisplay a \<and> mounted sys = DetailState d")
    case True
    then obtain a d where a: "render_main (router sys) = ProfileDisplay a"
      and d: "mounted sys = DetailState d" by blast
    with detail ProfileDisplay have "a = b" by blast
    with a d ProfileDisplay inv show ?thesis by (auto simp: commit_def sys_inv_def)
  next
    case False
    obtain d' rq where e: "profileId_effect b display_init = (d', rq)"
      by (cases "profileId_effect b display_init")
    have c: "commit r' sys =
        sys\<lparr>router := r', generation := Suc (generation sys), mounted := DetailState d',
            calls := calls sys @ (case rq of None \<Rightarrow> []
                                  | Some i \<Rightarrow> [GetProfile (Suc (generation sys)) i])\<rparr>"
      using False ProfileDisplay e
      by (auto simp: commit_def split: screen.splits view_state.splits)
    have rq: "\<And>i. rq = Some i \<Longrightarrow> i = b" using e profileId_effect_request by blast
    from inv have old: "\<forall>c \<in> set (calls sys). issuer c \<le> generation sys"
      by (simp add: sys_inv_def)
    show ?thesis
      unfolding c using ProfileDisplay old rq
      by (cases rq) (auto simp: sys_inv_def)
  qed
next
  case (AnalysisChat q)
  show ?thesis
  proof (cases "\<exists>p c. render_main (router sys) = AnalysisChat p \<and> mounted sys = ChatState c")
    case True
    then obtain p c where p: "render_main (router sys) = AnalysisChat p"
      and c: "mounted sys = ChatState c" by blast
    with chat AnalysisChat have "p = q" by blast
    with p c AnalysisChat inv show ?thesis by (auto simp: commit_def sys_inv_def)
  next
    case False
    have c: "commit r' sys =
        sys\<lparr>router := r', generation := Suc (generation sys), mounted := ChatState chat_init\<rparr>"
      using False AnalysisChat
      by (auto simp: commit_def split: screen.splits view_state.splits)
    from inv have old: "\<forall>c \<in> set (calls sys). issuer c \<le> generation sys"
      by (simp add: sys_inv_def)
    show ?thesis
      unfolding c using AnalysisChat old by (auto simp: sys_inv_def)
  qed
qed

lemma set_remove_at: "set (remove_at k xs) \<subseteq> set xs"
proof -
  have "set (take k xs) \<subseteq> set xs" by (rule set_take_subset)
  moreover have "set (drop (Suc k) xs) \<subseteq> set xs" by (rule set_drop_subset)
  ultimately show ?thesis by (auto simp: remove_at_def)
qed

lemma deliver_fits: "mounted_fits scr (deliver c out now v) = mounted_fits scr v"
  by (cases c; cases v; cases scr) simp_all

lemma deliver_NoState: "deliver c out now v = NoState \<longleftrightarrow> v = NoState"
  by (cases c; cases v) simp_all

lemma render_main_list:
  "view r = list_view \<Longrightarrow> render_main r = ProfileList"
  by (simp add: render_main_def)

lemma render_main_chat:
  "view r = chat_view \<Longrightarrow> (\<exists>p. render_main r = AnalysisChat p) \<or> render_main r = Nothing"
  by (simp add: render_main_def)

lemma render_main_create:
  "view r = create_view \<Longrightarrow> render_main r = ProfileForm"
  by (simp add: render_main_def)

lemma render_main_health:
  "render_main (checkApiHealth_settle out r) = render_main r"
  by (cases out; cases "view r") (simp_all add: checkApiHealth_settle_def render_main_def)

lemma fits_detail:
  "mounted_fits scr (DetailState d) \<longleftrightarrow> (\<exists>a. scr = ProfileDisplay a)"
  by (cases scr) simp_all

lemma fits_chat:
  "mounted_fits scr (ChatState c) \<longleftrightarrow> (\<exists>p. scr = AnalysisChat p)"
  by (cases scr) simp_all

lemma in_view_inv:
  assumes inv: "sys_inv sys"
    and kind: "mounted_fits (render_main (router sys)) v" "mounted sys \<noteq> NoState"
    and new: "\<forall>c \<in> set cs. issuer c = generation sys \<and>
                for_shown_profile c (render_main (router sys))"
  shows "sys_inv (sys\<lparr>mounted := v, calls := calls sys @ cs\<rparr>)"
  using assms by (auto simp: sys_inv_def)

lemma sys_inv_step:
  assumes inv: "sys_inv sys"
  shows "sys_inv (sys_step e sys)"
proof (cases e)
  case ClickCreateNew
  show ?thesis
  proof (cases "render_main (router sys) = ProfileList")
    case True
    then have "sys_inv (commit (handleCreateProfile (router sys)) sys)"
      by (intro commit_inv inv) simp_all
    with True ClickCreateNew show ?thesis by simp
  next
    case False
    with ClickCreateNew inv show ?thesis by simp
  qed
next
  case (ClickCard p)
  show ?thesis
  proof (cases "render_main (router sys) = ProfileList")
    case True
    then have "\<And>r'. sys_inv (commit r' sys)"
      by (intro commit_inv inv) simp_all
    with True ClickCard inv show ?thesis by (simp split: sum.splits prod.splits)
  next
    case False
    with ClickCard inv show ?thesis by simp
  qed
next
  case (CreateSucceeded result)
  have "render_main (handleProfileCreated result (router sys)) = ProfileList"
    by (simp add: handleProfileCreated_def render_main_list)
  then have "sys_inv (commit (handleProfileCreated result (router sys)) sys)"
    by (intro commit_inv inv) simp_all
  with CreateSucceeded show ?thesis by simp
next
  case ClickBack
  have "render_main (handleBackToList (router sys)) = ProfileList"
    by (simp add: handleBackToList_def render_main_list)
  then have "sys_inv (commit (handleBackToList (router sys)) sys)"
    by (intro commit_inv inv) simp_all
  with ClickBack show ?thesis by simp
next
  case ClickAnalyzeSkills
  show ?thesis
  proof (cases "mounted sys")
    case (DetailState d)
    with inv have "mounted_fits (render_main (router sys)) (DetailState d)"
      by (simp add: sys_inv_def)
    then obtain a where a: "render_main (router sys) = ProfileDisplay a"
      by (auto simp: fits_detail)
    have "view (handleAnalyze (profile d) (router sys)) = chat_view"
      by (simp add: handleAnalyze_def)
    then have "(\<exists>p. render_main (handleAnalyze (profile d) (router sys)) = AnalysisChat p) \<or>
               render_main (handleAnalyze (profile d) (router sys)) = Nothing"
      by (rule render_main_chat)
    then have "sys_inv (commit (handleAnalyze (profile d) (router sys)) sys)"
      using a by (intro commit_inv inv) auto
    with ClickAnalyzeSkills DetailState inv show ?thesis by simp
  next
    case (ChatState c)
    with ClickAnalyzeSkills inv show ?thesis by simp
  next
    case NoState
    with ClickAnalyzeSkills inv show ?thesis by simp
  qed
next
  case (HealthSettles out)
  have "sys_inv (commit (checkApiHealth_settle out (router sys)) sys)"
    by (intro commit_inv inv) (simp_all add: render_main_health)
  with HealthSettles show ?thesis by simp
next
  case (TypeQuery v)
  with inv show ?thesis by (auto simp: sys_inv_def fits_detail fits_chat split: view_state.splits)
next
  case (TypeTargetRole v)
  with inv show ?thesis by (auto simp: sys_inv_def fits_detail fits_chat split: view_state.splits)
next
  case (ClickSend now)
  show ?thesis
  proof (cases "\<exists>p c. render_main (router sys) = AnalysisChat p \<and> mounted sys = ChatState c")
    case True
    then obtain p c where p: "render_main (router sys) = AnalysisChat p"
      and c: "mounted sys = ChatState c" by blast
    obtain c' rq where b: "handleSend_begin p now c = (c', rq)"
      by (cases "handleSend_begin p now c")
    have new: "\<forall>x \<in> set (case rq of None \<Rightarrow> [] | Some q \<Rightarrow> [ChatAnalyze (generation sys) q]).
                 issuer x = generation sys \<and> for_shown_profile x (render_main (router sys))"
    proof (cases rq)
      case None
      then show ?thesis by simp
    next
      case (Some q)
      with b have "id_or_profile_id p = Inr (user_profile_id q)" using begin_issued by blast
      with Some p show ?thesis by simp
    qed
    have "sys_inv (sys\<lparr>mounted := ChatState c',
                     calls := calls sys @ (case rq of None \<Rightarrow> []
                                           | Some q \<Rightarrow> [ChatAnalyze (generation sys) q])\<rparr>)"
      using p c new by (intro in_view_inv inv) simp_all
    with ClickSend p c b show ?thesis by simp
  next
    case False
    with ClickSend inv show ?thesis
      by (auto split: screen.splits view_state.splits)
  qed
next
  case (TypeDashboardRole v)
  with inv show ?thesis by (auto simp: sys_inv_def fits_detail fits_chat split: view_state.splits)
next
  case (TypeDashboardQuery v)
  with inv show ?thesis by (auto simp: sys_inv_def fits_detail fits_chat split: view_state.splits)
next
  case ToggleAnalysis
  with inv show ?thesis by (auto simp: sys_inv_def fits_detail fits_chat split: view_state.splits)
next
  case ClickAnalyze
  show ?thesis
  proof (cases "\<exists>a d. render_main (router sys) = ProfileDisplay a \<and> mounted sys = DetailState d")
    case True
    then obtain a d where a: "render_main (router sys) = ProfileDisplay a"
      and d: "mounted sys = DetailState d" by blast
    obtain d' rq where b: "handleAnalyze_begin a d = (d', rq)"
      by (cases "handleAnalyze_begin a d")
    have new: "\<forall>x \<in> set (case rq of None \<Rightarrow> [] | Some q \<Rightarrow> [DashboardAnalyze (generation sys) q]).
                 issuer x = generation sys \<and> for_shown_profile x (render_main (router sys))"
    proof (cases rq)
      case None
      then show ?thesis by simp
    next
      case (Some q)
      with b have "user_profile_id q = a" using handleAnalyze_begin_request by blast
      with Some a show ?thesis by simp
    qed
    have "sys_inv (sys\<lparr>mounted := DetailState d',
                     calls := calls sys @ (case rq of None \<Rightarrow> []
                                           | Some q \<Rightarrow> [DashboardAnalyze (generation sys) q])\<rparr>)"
      using a d new by (intro in_view_inv inv) simp_all
    with ClickAnalyze a d b show ?thesis by simp
  next
    case False
    with ClickAnalyze inv show ?thesis
      by (auto split: screen.splits view_state.splits)
  qed
next
  case (ClickShowSkills skills_arg title)
  with inv show ?thesis by (auto simp: sys_inv_def fits_detail fits_chat split: view_state.splits)
next
  case ClickCloseModal
  with inv show ?thesis by (auto simp: sys_inv_def fits_detail fits_chat split: view_state.splits)
next
  case (Settles k out now)
  show ?thesis
  proof (cases "k < length (calls sys)")
    case True
    have sub: "set (remove_at k (calls sys)) \<subseteq> set (calls sys)" by (rule set_remove_at)
    show ?thesis
    proof (cases "issuer (calls sys ! k) = generation sys")
      case same: True
      have "sys_inv (sys\<lparr>calls := remove_at k (calls sys),
                       mounted := deliver (calls sys ! k) out now (mounted sys)\<rparr>)"
        using inv sub by (auto simp: sys_inv_def deliver_fits deliver_NoState)
      with Settles True same show ?thesis by simp
    next
      case False
      have "sys_inv (sys\<lparr>calls := remove_at k (calls sys)\<rparr>)"
        using inv sub by (auto simp: sys_inv_def)
      with Settles True False show ?thesis by simp
    qed
  next
    case False
    with Settles inv show ?thesis by simp
  qed
qed

lemma sys_inv_run: "sys_inv sys \<Longrightarrow> sys_inv (sys_run es sys)"
  by (induction es arbitrary: sys) (simp_all add: sys_inv_step)

lemma sys_inv_init: "sys_inv system_init"
  by (simp add: sys_inv_def system_init_def app_init_def render_main_def)

lemma profile_race_run:
  "sys_run profile_race system_init =
     \<lparr>router = \<lparr>view = profile_view, selectedProfile = profile_two,
                 apiStatus = status_checking\<rparr>,
      generation = 2,
      mounted = DetailState (display_init\<lparr>profile := profile_two, pd_loading := False\<rparr>),
      calls = [GetProfile 1 (JStr ''p1'')]\<rparr>"
  by (simp add: profile_race_def system_init_def app_init_def sample_profile_def
      profile_two_def select_card_def card_onClick_def handleSelectProfile_def
      id_or_profile_id_def render_main_def js_or_def commit_def handleBackToList_def
      profileId_effect_def loadProfile_begin_def loadProfile_settle_def display_init_def
      remove_at_def)

lemma analyze_race_run:
  "sys_run analyze_race system_init =
     \<lparr>router = \<lparr>view = chat_view, selectedProfile = profile_two,
                 apiStatus = status_checking\<rparr>,
      generation = 4,
      mounted = ChatState chat_init,
      calls = [ChatAnalyze 2 sent_request]\<rparr>"
  by (simp add: analyze_race_def system_init_def app_init_def sample_profile_def
      profile_two_def select_card_def card_onClick_def handleSelectProfile_def
      id_or_profile_id_def render_main_def js_or_def commit_def handleBackToList_def
      handleAnalyze_def profileId_effect_def loadProfile_begin_def loadProfile_settle_def
      display_init_def chat_init_def handleSend_begin_def trim_def is_ws_def
      sent_request_def remove_at_def)

subsection \<open>The claims\<close>

text \<open>
  C1. Stale-response discard. Take any state the application reaches from its start and
  any outstanding \<^verbatim>\<open>getProfile\<close> or \<^verbatim>\<open>analyze\<close> call in it. If the call is not for the
  profile now on screen, or the view that issued it is no longer the mounted one (it was
  left by a navigation, even if the same profile was opened again), then the settlement of
  the call, whatever its outcome, changes nothing: the router and the mounted view with its
  profile and its message log stay as they are, and the call is merely no longer
  outstanding. In particular, when p1 is opened, left by "back", and p2 is opened, the late
  answer for p1 does not replace the profile of p2.
\<close>

theorem stale_response_discarded:
  assumes "sys = sys_run es system_init"
    and "k < length (calls sys)"
    and "\<not> for_shown_profile (calls sys ! k) (render_main (router sys)) \<or>
         issuer (calls sys ! k) \<noteq> generation sys \<or> mounted sys = NoState"
  shows "sys_step (Settles k out now) sys = sys\<lparr>calls := remove_at k (calls sys)\<rparr>"
proof -
  have inv: "sys_inv sys" using assms(1) sys_inv_run[OF sys_inv_init] by simp
  from assms(2) have "calls sys ! k \<in> set (calls sys)" by simp
  with inv have
    "issuer (calls sys ! k) = generation sys \<and> mounted sys \<noteq> NoState \<longrightarrow>
     for_shown_profile (calls sys ! k) (render_main (router sys))"
    by (simp add: sys_inv_def)
  with assms(3) have "issuer (calls sys ! k) \<noteq> generation sys \<or> mounted sys = NoState"
    by blast
  then show ?thesis
  proof
    assume "issuer (calls sys ! k) \<noteq> generation sys"
    with assms(2) show ?thesis by simp
  next
    assume "mounted sys = NoState"
    with assms(2) show ?thesis by (simp add: deliver_NoState)
  qed
qed

theorem stale_response_discarded_witness:
  "(0::nat) < length (calls (sys_run profile_race system_init)) \<and>
   calls (sys_run profile_race system_init) ! 0 = GetProfile 1 (JStr ''p1'') \<and>
   render_main (router (sys_run profile_race system_init)) = ProfileDisplay (JStr ''p2'') \<and>
   \<not> for_shown_profile (calls (sys_run profile_race system_init) ! 0)
       (render_main (router (sys_run profile_race system_init))) \<and>
   mounted (sys_step (Settles 0 (Resolved sample_profile) 5)
             (sys_run profile_race system_init))
     = DetailState (display_init\<lparr>profile := profile_two, pd_loading := False\<rparr>) \<and>
   calls (sys_step (Settles 0 (Resolved sample_profile) 5)
           (sys_run profile_race system_init)) = [] \<and>
   (0::nat) < length (calls (sys_run analyze_race system_init)) \<and>
   calls (sys_run analyze_race system_init) ! 0 = ChatAnalyze 2 sent_request \<and>
   issuer (calls (sys_run analyze_race system_init) ! 0)
     \<noteq> generation (sys_run analyze_race system_init) \<and>
   mounted (sys_step (Settles 0 (Resolved sample_report) 9)
             (sys_run analyze_race system_init)) = ChatState chat_init"
  using stale_response_discarded[of "sys_run profile_race system_init" profile_race 0
          "Resolved sample_profile" 5]
        stale_response_discarded[of "sys_run analyze_race system_init" analyze_race 0
          "Resolved sample_report" 9]
  by (simp add: profile_race_run analyze_race_run render_main_def js_or_def profile_two_def
      remove_at_def)

text \<open>
  C2. A call of \<^verbatim>\<open>handleSend\<close> with a query or a target role that is blank after
  trimming, or while a request is in flight, is a complete no-op: the state (log, input
  buffer, busy flag, target role) is returned unchanged and no request is issued.
\<close>

theorem handleSend_blank_or_busy_noop:
  "trim (input s) = [] \<or> trim (targetRole s) = [] \<or> loading s \<Longrightarrow>
   handleSend_begin p now s = (s, None)"
  by (simp add: handleSend_begin_def)

theorem handleSend_blank_or_busy_noop_witness:
  "trim (targetRole blank_role_chat) = [] \<and>
   handleSend_begin sample_profile 5 blank_role_chat = (blank_role_chat, None)"
  using handleSend_blank_or_busy_noop[of blank_role_chat sample_profile 5]
  by (simp add: blank_role_chat_def trim_def is_ws_def)

text \<open>
  C3. Busy always clears. A submission that issues a request has set the busy flag by then;
  when the request settles, whatever the outcome (a report, a rejection, or a value that
  makes the handler itself throw) and whatever the state of the view at that moment, the
  flag is false afterwards; a submission whose request cannot even be built clears the flag
  at once. Over any sequence of edits, submissions and settlements from the initial state,
  the flag is set exactly while a request is outstanding, so it never stays stuck.
\<close>

theorem busy_always_clears:
  "(handleSend_begin p t s = (s1, Some req) \<longrightarrow> loading s1) \<and>
   (trim (input s) \<noteq> [] \<and> trim (targetRole s) \<noteq> [] \<and> \<not> loading s \<and>
    handleSend_begin p t s = (s1, None) \<longrightarrow> \<not> loading s1) \<and>
   \<not> loading (handleSend_settle out t' s2) \<and>
   (loading (chat (chat_run p es chat_start)) \<longleftrightarrow> in_flight (chat_run p es chat_start) \<noteq> [])"
proof (intro conjI impI)
  assume "handleSend_begin p t s = (s1, Some req)"
  then have "s1 = s\<lparr>messages := messages s @ [userMessage (input s) t], loading := True,
                     input := []\<rparr>"
    using begin_issued by blast
  then show "loading s1" by simp
next
  assume "trim (input s) \<noteq> [] \<and> trim (targetRole s) \<noteq> [] \<and> \<not> loading s \<and>
          handleSend_begin p t s = (s1, None)"
  then show "\<not> loading s1" using begin_not_issued[of s p t s1] by blast
next
  show "\<not> loading (handleSend_settle out t' s2)" by (rule settle_not_loading)
next
  have "chat_inv (chat_run p es chat_start)" by (rule chat_inv_run[OF chat_inv_start])
  then show "loading (chat (chat_run p es chat_start)) \<longleftrightarrow>
             in_flight (chat_run p es chat_start) \<noteq> []"
    by (simp add: chat_inv_def)
qed

theorem busy_always_clears_witness:
  "handleSend_begin sample_profile 1 ready_chat = (sent_chat, Some sent_request) \<and>
   loading sent_chat \<and>
   \<not> loading (handleSend_settle (Rejected not_found_rejection) 2 sent_chat) \<and>
   trim (input ready_chat) \<noteq> [] \<and> trim (targetRole ready_chat) \<noteq> [] \<and>
   \<not> loading ready_chat \<and> snd (handleSend_begin JNull 1 ready_chat) = None \<and>
   \<not> loading (fst (handleSend_begin JNull 1 ready_chat)) \<and>
   \<not> loading (chat (chat_run sample_profile sample_session chat_start)) \<and>
   in_flight (chat_run sample_profile sample_session chat_start) = []"
  using busy_always_clears[of sample_profile 1 ready_chat sent_chat sent_request
          "Rejected not_found_rejection" 2 sent_chat sample_session]
        busy_always_clears[of JNull 1 ready_chat "fst (handleSend_begin JNull 1 ready_chat)"
          sent_request "Rejected not_found_rejection" 2 sent_chat sample_session]
        ready_chat_begin null_profile_begin sample_session_run
  by (simp add: prod_eq_iff)

text \<open>
  C4. Error-message precedence. When \<^verbatim>\<open>analyze\<close> rejects, one error message is appended
  and its text is (a) the \<^verbatim>\<open>detail\<close> field of the payload of the transport error when
  there is one (the code tests it with \<^verbatim>\<open>||\<close>, so an empty detail counts as none), else
  (b) the text of the error, else (c) the fixed text "Failed to analyze skills". A rejection
  with the payload \<^verbatim>\<open>{detail: "profile not found"}\<close> gives exactly that text.
\<close>

theorem analyze_error_text_precedence:
  assumes "err \<noteq> JNull" "err \<noteq> JUndefined"
  shows "messages (handleSend_settle (Rejected err) t s) =
           messages s @
           [errorMessage
              (if truthy (opt_prop (opt_prop (opt_prop err ''response'') ''data'') ''detail'')
               then opt_prop (opt_prop (opt_prop err ''response'') ''data'') ''detail''
               else if truthy (opt_prop err ''message'') then opt_prop err ''message''
               else JStr ''Failed to analyze skills'') t]"
  using error_text_precedence[OF assms, of "''Failed to analyze skills''"]
  by (simp add: handleSend_settle_def handleSend_finally_def handleSend_catch_def)

theorem analyze_error_text_precedence_witness:
  "not_found_rejection \<noteq> JNull \<and> not_found_rejection \<noteq> JUndefined \<and>
   messages (handleSend_settle (Rejected not_found_rejection) 7 chat_init) =
     [\<lparr>msg_type = Error, content = JStr ''profile not found'', report = JUndefined,
       timestamp = 7\<rparr>]"
  using analyze_error_text_precedence[of not_found_rejection 7 chat_init]
  by (simp add: not_found_rejection_def chat_init_def errorMessage_def)

text \<open>
  C5. Message-log ordering and append-only. Over any sequence of events the log a view
  started with stays a prefix of the log it ends with: nothing is removed, reordered or
  changed. A submission that issues a request has appended its user message by then; the
  settlement appends at most one message, a reply, at the end of the log of that moment, so
  the user message keeps its index, which is below the index of the reply. In every log
  reached from the initial state each reply directly follows a user message.
\<close>

theorem message_log_append_only:
  "prefix (messages (chat c)) (messages (chat (chat_run p es c))) \<and>
   (handleSend_begin p t s = (s1, Some req) \<longrightarrow>
      messages s1 = messages s @ [userMessage (input s) t] \<and>
      (prefix (messages s1) (messages s2) \<longrightarrow>
         (\<exists>reply. messages (handleSend_settle out t' s2) = messages s2 @ reply \<and>
                  length reply \<le> 1 \<and> (\<forall>m \<in> set reply. msg_type m \<noteq> User)) \<and>
         messages (handleSend_settle out t' s2) ! length (messages s) = userMessage (input s) t \<and>
         length (messages s) < length (messages s2))) \<and>
   (\<forall>i < length (messages (chat (chat_run p es chat_start))).
      msg_type (messages (chat (chat_run p es chat_start)) ! i) \<noteq> User \<longrightarrow>
      0 < i \<and> msg_type (messages (chat (chat_run p es chat_start)) ! (i - 1)) = User)"
proof (intro conjI impI allI)
  show "prefix (messages (chat c)) (messages (chat (chat_run p es c)))"
    by (rule chat_run_prefix)
next
  assume "handleSend_begin p t s = (s1, Some req)"
  then have "s1 = s\<lparr>messages := messages s @ [userMessage (input s) t], loading := True,
                     input := []\<rparr>"
    using begin_issued by blast
  then show "messages s1 = messages s @ [userMessage (input s) t]" by simp
next
  show "\<exists>reply. messages (handleSend_settle out t' s2) = messages s2 @ reply \<and>
          length reply \<le> 1 \<and> (\<forall>m \<in> set reply. msg_type m \<noteq> User)"
    using settle_messages[of out t' s2] by blast
next
  assume b: "handleSend_begin p t s = (s1, Some req)"
    and pre: "prefix (messages s1) (messages s2)"
  from b have s1: "messages s1 = messages s @ [userMessage (input s) t]"
    using begin_issued[of p t s s1 req] by simp
  from pre obtain later where l: "messages s2 = messages s1 @ later"
    by (auto simp: prefix_def)
  obtain reply where r: "messages (handleSend_settle out t' s2) = messages s2 @ reply"
    using settle_messages[of out t' s2] by blast
  show "messages (handleSend_settle out t' s2) ! length (messages s) = userMessage (input s) t"
    by (simp add: r l s1 nth_append)
  show "length (messages s) < length (messages s2)"
    by (simp add: l s1)
next
  fix i
  let ?ms = "messages (chat (chat_run p es chat_start))"
  assume i: "i < length ?ms" and n: "msg_type (?ms ! i) \<noteq> User"
  have "chat_inv (chat_run p es chat_start)" by (rule chat_inv_run[OF chat_inv_start])
  then have "exchanges ?ms" by (simp add: chat_inv_def)
  from exchanges_nth[OF this i n]
  show "0 < i" and "msg_type (?ms ! (i - 1)) = User" by simp_all
qed

theorem message_log_append_only_witness:
  "prefix (messages (chat chat_start))
          (messages (chat (chat_run sample_profile sample_session chat_start))) \<and>
   handleSend_begin sample_profile 1 ready_chat = (sent_chat, Some sent_request) \<and>
   messages sent_chat = messages ready_chat @ [userMessage (input ready_chat) 1] \<and>
   prefix (messages sent_chat) (messages sent_chat) \<and>
   messages (handleSend_settle (Resolved sample_report) 3 sent_chat) =
     [userMessage ''move into leadership'' 1,
      assistantMessage (JStr ''Two skills are missing'') sample_report 3] \<and>
   (1::nat) < length (messages (chat (chat_run sample_profile sample_session chat_start))) \<and>
   msg_type (messages (chat (chat_run sample_profile sample_session chat_start)) ! 1) \<noteq> User \<and>
   msg_type (messages (chat (chat_run sample_profile sample_session chat_start)) ! (1 - 1)) = User"
  using message_log_append_only[of chat_start sample_profile sample_session 1 ready_chat
          sent_chat sent_request sent_chat "Resolved sample_report" 3]
        ready_chat_begin sample_session_run
  by (simp add: sent_chat_def ready_chat_def chat_start_def chat_init_def handleSend_settle_def
      handleSend_finally_def sample_report_def userMessage_def assistantMessage_def)

text \<open>
  C6. Profile-selection id guard. A click on a card whose record resolves to a truthy id
  (\<^verbatim>\<open>id\<close>, else \<^verbatim>\<open>profile_id\<close>) selects the record with that id and the detail
  view is rendered with it. When the record resolves to no id (\<^verbatim>\<open>undefined\<close>, \<^verbatim>\<open>null\<close>,
  the empty string, 0 or \<^verbatim>\<open>false\<close>), the click shows an alert and leaves the router
  unchanged, and \<^verbatim>\<open>handleSelectProfile\<close> called with such a record does the same; a
  record whose id cannot even be read leaves the router unchanged too. After any sequence
  of events, a detail view that is rendered has a truthy \<^verbatim>\<open>profileId\<close>.
\<close>

theorem profile_selection_id_guard:
  "(id_or_profile_id p = Inr pid \<and> truthy pid \<longrightarrow>
      select_card p s = Inr (s\<lparr>selectedProfile := spread_id p pid, view := profile_view\<rparr>, None) \<and>
      render_main (s\<lparr>selectedProfile := spread_id p pid, view := profile_view\<rparr>)
        = ProfileDisplay pid) \<and>
   (id_or_profile_id p = Inr pid \<and> \<not> truthy pid \<longrightarrow>
      select_card p s = Inr (s, Some ''Error: Profile ID not found'') \<and>
      handleSelectProfile p s = Inr (s, Some ''Error: Profile ID not found. Please try again.'') \<and>
      app_step (CardClicked p) s = s) \<and>
   (id_or_profile_id p = Inl e \<longrightarrow> app_step (CardClicked p) s = s) \<and>
   (render_main (app_run es app_init) = ProfileDisplay shown \<longrightarrow> truthy shown)"
proof (intro conjI impI)
  assume a: "id_or_profile_id p = Inr pid \<and> truthy pid"
  then show "select_card p s =
      Inr (s\<lparr>selectedProfile := spread_id p pid, view := profile_view\<rparr>, None)"
    by (simp add: select_card_cases)
  from a show "render_main (s\<lparr>selectedProfile := spread_id p pid, view := profile_view\<rparr>)
        = ProfileDisplay pid"
    by (simp add: render_selected)
next
  assume a: "id_or_profile_id p = Inr pid \<and> \<not> truthy pid"
  then show "select_card p s = Inr (s, Some ''Error: Profile ID not found'')"
    by (simp add: select_card_cases)
  from a show "handleSelectProfile p s =
      Inr (s, Some ''Error: Profile ID not found. Please try again.'')"
    by (simp add: handleSelectProfile_cases)
  from a show "app_step (CardClicked p) s = s"
    by (simp add: select_card_cases)
next
  assume "id_or_profile_id p = Inl e"
  then show "app_step (CardClicked p) s = s"
    by (simp add: select_unresolved)
next
  assume "render_main (app_run es app_init) = ProfileDisplay shown"
  then show "truthy shown"
    using app_inv_render[OF app_inv_run[OF app_inv_init]] by blast
qed

theorem profile_selection_id_guard_witness:
  "id_or_profile_id legacy_id_record = Inr (JStr ''p7'') \<and> truthy (JStr ''p7'') \<and>
   select_card legacy_id_record app_init =
     Inr (app_init\<lparr>selectedProfile := spread_id legacy_id_record (JStr ''p7''),
                    view := profile_view\<rparr>, None) \<and>
   id_or_profile_id no_id_record = Inr JUndefined \<and> \<not> truthy JUndefined \<and>
   select_card no_id_record app_init = Inr (app_init, Some ''Error: Profile ID not found'') \<and>
   id_or_profile_id JNull = Inl (typeError ''null'' ''id'') \<and>
   app_step (CardClicked JNull) app_init = app_init \<and>
   render_main (app_run [CardClicked no_id_record, CardClicked legacy_id_record] app_init)
     = ProfileDisplay (JStr ''p7'')"
  using profile_selection_id_guard[of legacy_id_record "JStr ''p7''" app_init
          "typeError ''null'' ''id''"
          "[CardClicked no_id_record, CardClicked legacy_id_record]" "JStr ''p7''"]
        profile_selection_id_guard[of no_id_record JUndefined app_init
          "typeError ''null'' ''id''" "[]" JUndefined]
        profile_selection_id_guard[of JNull JUndefined app_init
          "typeError ''null'' ''id''" "[]" JUndefined]
  by (simp add: legacy_id_record_def no_id_record_def id_or_profile_id_def app_init_def
      select_card_def card_onClick_def handleSelectProfile_def render_main_def js_or_def)

text \<open>
  C7. Every analysis request that is issued, by \<^verbatim>\<open>handleSend\<close> of the chat view or by
  \<^verbatim>\<open>handleAnalyze\<close> of the dashboard, carries a non-empty \<^verbatim>\<open>target_role.role_name\<close>.
\<close>

theorem issued_role_name_nonempty:
  "(handleSend_begin p t s = (s1, Some req) \<longrightarrow> role_name (target_role req) \<noteq> []) \<and>
   (handleAnalyze_begin pid d = (d1, Some req') \<longrightarrow> role_name (target_role req') \<noteq> [])"
proof (intro conjI impI)
  assume "handleSend_begin p t s = (s1, Some req)"
  then have "trim (targetRole s) \<noteq> []" "role_name (target_role req) = targetRole s"
    using begin_issued by blast+
  then show "role_name (target_role req) \<noteq> []" using trim_nonempty by simp
next
  assume "handleAnalyze_begin pid d = (d1, Some req')"
  then show "role_name (target_role req') \<noteq> []"
    by (auto simp: handleAnalyze_begin_def split: if_splits)
qed

theorem issued_role_name_nonempty_witness:
  "handleSend_begin sample_profile 1 ready_chat = (sent_chat, Some sent_request) \<and>
   role_name (target_role sent_request) = ''Senior Architect'' \<and>
   handleAnalyze_begin (JStr ''p1'') display_init =
     (display_init\<lparr>analyzing := True\<rparr>, Some default_dashboard_request) \<and>
   role_name (target_role default_dashboard_request) = ''Target Role''"
  using issued_role_name_nonempty[of sample_profile 1 ready_chat sent_chat sent_request
          "JStr ''p1''" display_init "display_init\<lparr>analyzing := True\<rparr>"
          default_dashboard_request]
        ready_chat_begin dashboard_begin
  by (simp add: sent_request_def default_dashboard_request_def)

text \<open>
  C8. Modal empty-open guard. \<^verbatim>\<open>handleShowSkills\<close> with an absent or empty list leaves the
  whole state of the view unchanged, so the modal does not open, and shows the notice
  "No <lowercased title> found."; for the title "Skills Weak" the notice is
  "No skills weak found.". With a non-empty list it sets the items, the title and the open
  flag.
\<close>

theorem modal_empty_open_guard:
  "(skills_arg = JUndefined \<or> skills_arg = JNull \<or> skills_arg = JArr [] \<longrightarrow>
      handleShowSkills skills_arg title d = (d, Some (''No '' @ toLowerCase title @ '' found.''))) \<and>
   handleShowSkills (JArr (x # xs)) title d =
     (d\<lparr>modalSkills := JArr (x # xs), modalTitle := title, showSkillsModal := True\<rparr>, None) \<and>
   handleShowSkills (JArr []) ''Skills Weak'' d = (d, Some ''No skills weak found.'')"
proof (intro conjI impI)
  assume "skills_arg = JUndefined \<or> skills_arg = JNull \<or> skills_arg = JArr []"
  then show "handleShowSkills skills_arg title d =
      (d, Some (''No '' @ toLowerCase title @ '' found.''))"
    by (auto simp: handleShowSkills_def)
next
  show "handleShowSkills (JArr (x # xs)) title d =
     (d\<lparr>modalSkills := JArr (x # xs), modalTitle := title, showSkillsModal := True\<rparr>, None)"
    by (simp add: handleShowSkills_def)
next
  have "toLowerCase ''Skills Weak'' = ''skills weak''" by code_simp
  then show "handleShowSkills (JArr []) ''Skills Weak'' d = (d, Some ''No skills weak found.'')"
    by (simp add: handleShowSkills_def)
qed

theorem modal_empty_open_guard_witness:
  "handleShowSkills JUndefined ''Skills Met'' display_init
     = (display_init, Some ''No skills met found.'') \<and>
   \<not> showSkillsModal (fst (handleShowSkills JUndefined ''Skills Met'' display_init)) \<and>
   showSkillsModal (fst (handleShowSkills (JArr [JStr ''Kubernetes'']) ''Skills Missing''
                           display_init))"
proof -
  have l: "toLowerCase ''Skills Met'' = ''skills met''" by code_simp
  show ?thesis
    using modal_empty_open_guard[of JUndefined "''Skills Met''" display_init "JStr ''Kubernetes''"
            "[]"]
          modal_empty_open_guard[of JUndefined "''Skills Missing''" display_init
            "JStr ''Kubernetes''" "[]"]
    by (simp add: l display_init_def)
qed

text \<open>
  C9. Adding a skill whose name is blank or white space only, or a certification whose
  text is blank or white space only, leaves the form as it was: the skills and the
  certifications are unchanged.
\<close>

theorem blank_add_is_noop:
  "(trim (skill_name (newSkill f)) = [] \<longrightarrow> handleAddSkill f = f) \<and>
   (trim (newCert f) = [] \<longrightarrow> handleAddCert f = f)"
  by (simp add: handleAddSkill_def handleAddCert_def)

theorem blank_add_is_noop_witness:
  "trim (skill_name (newSkill blank_entries_form)) = [] \<and>
   trim (newCert blank_entries_form) = [] \<and>
   skills (formData (handleAddSkill blank_entries_form)) = skills (formData blank_entries_form) \<and>
   certifications (formData (handleAddCert blank_entries_form))
     = certifications (formData blank_entries_form)"
  using blank_add_is_noop[of blank_entries_form]
  by (simp add: blank_entries_form_def trim_def is_ws_def)

text \<open>
  C10. List payload totality. When \<^verbatim>\<open>listProfiles\<close> resolves with a value that is not an
  array, the list view stores the empty array and, once loaded, renders "No profiles
  found"; an array is stored as it is. The profiles held by the list view are an array
  initially and stay one through every step of \<^verbatim>\<open>loadProfiles\<close>.
\<close>

theorem list_payload_always_array:
  "(\<not> isArray data \<longrightarrow>
      profiles (loadProfiles_settle (Resolved data) l) = JArr [] \<and>
      render_list (loadProfiles_settle (Resolved data) (loadProfiles_begin l)) = NoProfilesFound) \<and>
   (isArray data \<longrightarrow> profiles (loadProfiles_settle (Resolved data) l) = data) \<and>
   isArray (profiles list_init) \<and>
   (isArray (profiles l) \<longrightarrow>
      isArray (profiles (loadProfiles_begin l)) \<and>
      isArray (profiles (loadProfiles_settle out l)))"
proof (intro conjI impI)
  assume "\<not> isArray data"
  then show "profiles (loadProfiles_settle (Resolved data) l) = JArr []"
    by (simp add: loadProfiles_settle_def)
  from \<open>\<not> isArray data\<close>
  show "render_list (loadProfiles_settle (Resolved data) (loadProfiles_begin l)) = NoProfilesFound"
    by (simp add: loadProfiles_settle_def loadProfiles_begin_def render_list_def)
next
  assume "isArray data"
  then show "profiles (loadProfiles_settle (Resolved data) l) = data"
    by (simp add: loadProfiles_settle_def)
next
  show "isArray (profiles list_init)" by (simp add: list_init_def)
next
  assume a: "isArray (profiles l)"
  then show "isArray (profiles (loadProfiles_begin l))" by (simp add: loadProfiles_begin_def)
  from a show "isArray (profiles (loadProfiles_settle out l))"
    by (simp add: loadProfiles_settle_def split: outcome.splits sum.splits)
qed

theorem list_payload_always_array_witness:
  "\<not> isArray malformed_list_payload \<and>
   profiles (loadProfiles_settle (Resolved malformed_list_payload) (loadProfiles_begin list_init))
     = JArr [] \<and>
   render_list (loadProfiles_settle (Resolved malformed_list_payload)
                  (loadProfiles_begin list_init)) = NoProfilesFound \<and>
   isArray (JArr [sample_profile]) \<and>
   profiles (loadProfiles_settle (Resolved (JArr [sample_profile])) list_init)
     = JArr [sample_profile] \<and>
   isArray (profiles (loadProfiles_settle (Rejected not_found_rejection) list_init))"
  using list_payload_always_array[of malformed_list_payload "loadProfiles_begin list_init"
          "Rejected not_found_rejection"]
        list_payload_always_array[of "JArr [sample_profile]" list_init
          "Rejected not_found_rejection"]
  by (simp add: malformed_list_payload_def loadProfiles_begin_def list_init_def)

end
